theory Spec2Isabelle
  imports Main
begin

section \<open>The storefront buttons of \<open>ext/live_buttons.py\<close>\<close>

text \<open>
  The module is a presentation layer over services that live in other files of the
  repository (balance, product, transaction, admin, cache) and over the chat platform.
  Every call that leaves the module is modelled by what it can do to the caller: return
  a value or raise. An awaited call that neither returns nor raises is not an exit path
  of its caller and has no value in the model, except in \<open>initialize\<close>, whose
  loop is given fuel. Inside an \<open>asyncio.timeout(n)\<close> scope the expiry of the
  deadline reaches the code as a raised \<open>TimeoutError\<close>, so it is one of the
  exceptions a scoped call may raise; the budget \<open>n\<close> is kept in the trace.
\<close>

subsection \<open>Messages and exceptions\<close>

text \<open>
  The table \<open>MESSAGES\<close> is imported from \<open>ext/constants.py\<close>. The
  code only looks entries up by key, so a message is its key; \<open>Backend_text\<close>
  is a text that is not an entry of the table: the \<open>error\<close> field of a backend
  response, raised verbatim.
\<close>

datatype message =
    INFO_COOLDOWN
  | INFO_MAINTENANCE
  | INFO_INITIALIZING
  | ERROR_RATE_LIMIT
  | ERROR_INVALID_AMOUNT
  | ERROR_TIMEOUT
  | ERROR_TRANSACTION_TIMEOUT
  | ERROR_TRANSACTION_FAILED
  | ERROR_USER_BLACKLISTED
  | ERROR_REGISTRATION_FAILED
  | ERROR_SYSTEM_BUSY
  | ERROR_NO_PRODUCTS
  | ERROR_OUT_OF_STOCK
  | ERROR_NOT_REGISTERED
  | ERROR_BALANCE_FAILED
  | ERROR_WORLD_INFO_FAILED
  | ERROR_NO_HISTORY
  | ERROR_HISTORY_FAILED
  | Backend_text string

text \<open>
  The three exception classes the handlers tell apart: \<open>ValueError\<close> (shown to
  the user verbatim), \<open>asyncio.TimeoutError\<close> and \<open>discord.NotFound\<close>
  (each caught by name in some places), and every other \<open>Exception\<close>.
\<close>

datatype exn =
    ValueError message
  | TimeoutError
  | NotFound
  | OtherError

subsection \<open>Python's \<open>int()\<close> and \<open>str.strip()\<close> on ASCII text\<close>

text \<open>
  \<open>int(s)\<close> for a string: surrounding whitespace is dropped, one sign is allowed,
  then decimal digits follow, single underscores allowed between two digits. Anything
  else raises \<open>ValueError\<close>, here \<open>None\<close>. The strings of this model are
  ASCII; Python's whitespace below code point 128 is tab to carriage return, the four
  separators \<open>0x1C\<close> to \<open>0x1F\<close>, and the space.
\<close>

definition is_space :: "char \<Rightarrow> bool" where
  "is_space c = (c \<in> set [CHR 0x09, CHR 0x0A, CHR 0x0B, CHR 0x0C, CHR 0x0D,
                             CHR 0x1C, CHR 0x1D, CHR 0x1E, CHR 0x1F, CHR 0x20])"

definition strip :: "string \<Rightarrow> string" where
  "strip s = rev (dropWhile is_space (rev (dropWhile is_space s)))"

definition digit_val :: "char \<Rightarrow> nat option" where
  "digit_val c = map_of
     [(CHR ''0'', 0), (CHR ''1'', 1), (CHR ''2'', 2), (CHR ''3'', 3), (CHR ''4'', 4),
      (CHR ''5'', 5), (CHR ''6'', 6), (CHR ''7'', 7), (CHR ''8'', 8), (CHR ''9'', 9)] c"

text \<open>\<open>more_digits acc cs\<close>: what follows a digit, \<open>acc\<close> the value read so far.\<close>

fun more_digits :: "nat \<Rightarrow> string \<Rightarrow> nat option" where
  "more_digits acc [] = Some acc"
| "more_digits acc [c] =
     (case digit_val c of None \<Rightarrow> None | Some v \<Rightarrow> Some (10 * acc + v))"
| "more_digits acc (c # d # ds) =
     (if c = CHR ''_'' then
        (case digit_val d of None \<Rightarrow> None | Some v \<Rightarrow> more_digits (10 * acc + v) ds)
      else
        (case digit_val c of None \<Rightarrow> None
         | Some v \<Rightarrow> more_digits (10 * acc + v) (d # ds)))"

definition py_digits :: "string \<Rightarrow> nat option" where
  "py_digits s =
     (case s of [] \<Rightarrow> None
      | c # cs \<Rightarrow> (case digit_val c of None \<Rightarrow> None | Some v \<Rightarrow> more_digits v cs))"

definition py_int :: "string \<Rightarrow> int option" where
  "py_int s =
     (case strip s of [] \<Rightarrow> None
      | c # cs \<Rightarrow>
          if c = CHR ''-'' then map_option (\<lambda>n. - int n) (py_digits cs)
          else if c = CHR ''+'' then map_option int (py_digits cs)
          else map_option int (py_digits (c # cs)))"

subsection \<open>\<open>PurchaseModal.on_submit\<close>: the quantity field (lines 125 to 130)\<close>

text \<open>
  \<^verbatim>\<open>
  try:
      quantity = int(self.quantity.value)
      if quantity <= 0 or quantity > 999:
          raise ValueError(MESSAGES.ERROR['INVALID_AMOUNT'])
  except ValueError:
      raise ValueError(MESSAGES.ERROR['INVALID_AMOUNT'])
  \<close>
  Both the \<open>ValueError\<close> of \<open>int()\<close> and the one raised for the range are
  caught and raised again with the same message.
\<close>

definition validate_quantity :: "string \<Rightarrow> exn + int" where
  "validate_quantity txt =
     (case py_int txt of
        None \<Rightarrow> Inl (ValueError ERROR_INVALID_AMOUNT)
      | Some quantity \<Rightarrow>
          if quantity \<le> 0 \<or> quantity > 999 then Inl (ValueError ERROR_INVALID_AMOUNT)
          else Inr quantity)"

subsection \<open>Identifiers, cache keys, backend responses\<close>

type_synonym user_id = nat
type_synonym growid = string
type_synonym product_code = string

text \<open>
  The cache keys are f-strings, \<open>f"purchase_limit_{interaction.user.id}"\<close> and
  the like: a fixed prefix and one value, so a key is its prefix applied to the value.
\<close>

datatype cache_key =
    Purchase_limit user_id
  | Register_limit user_id
  | Buy_button user_id
  | Balance_key growid
  | Stock_key product_code
  | History_key user_id

text \<open>
  Every service answers with an object that has \<open>success\<close>, \<open>data\<close> and
  \<open>error\<close>.
\<close>

record 'a response =
  success :: bool
  data :: 'a
  error :: string

record product =
  code :: product_code
  name :: string
  price :: int
  stock :: int

record interaction =
  interaction_id :: nat
  user :: user_id

subsection \<open>What a handler does to the outside: the trace\<close>

datatype call =
    Is_maintenance_mode
  | Check_blacklist user_id
  | Cache_get cache_key
  | Cache_set cache_key bool nat
  | Cache_delete cache_key
  | Get_growid user_id
  | Get_balance growid
  | Get_transaction_history "growid option" nat
  | Get_daily_limit growid
  | Get_daily_usage growid
  | Get_world_info
  | Get_all_products
  | Get_stock_count product_code
  | Queue_qsize
  | Add_transaction user_id product_code int
  | Process_purchase user_id product_code int
  | Recover_failed_transaction
  | Sleep nat

datatype modal = Register_modal "growid option" | Purchase_modal "product list"

datatype reply =
    Error_embed message
  | Processing_embed
  | Purchase_success_embed int
  | Balance_embed growid
  | World_info_embed
  | History_embed "growid option"
  | Modal modal

datatype channel = Defer | Send_message | Send_modal | Followup

text \<open>
  \<open>Called c budget\<close>: the call \<open>c\<close> was made, inside an
  \<open>asyncio.timeout(budget)\<close> scope when \<open>budget\<close> is given.
  \<open>Responded i ch r ephemeral\<close>: the handler of interaction \<open>i\<close> called
  \<open>interaction.response.defer\<close>, \<open>send_message\<close>, \<open>send_modal\<close> or
  \<open>interaction.followup.send\<close> with \<open>r\<close> (for \<open>Defer\<close> the reply is
  not used). Lines written to the logger are not part of the model.
\<close>

datatype event =
    Called call "nat option"
  | Responded nat channel "reply option" bool

text \<open>Which calls go to the balance, product and transaction services.\<close>

fun is_service_call :: "call \<Rightarrow> bool" where
  "is_service_call (Get_growid _) = True"
| "is_service_call (Get_balance _) = True"
| "is_service_call (Get_transaction_history _ _) = True"
| "is_service_call (Get_daily_limit _) = True"
| "is_service_call (Get_daily_usage _) = True"
| "is_service_call Get_world_info = True"
| "is_service_call Get_all_products = True"
| "is_service_call (Get_stock_count _) = True"
| "is_service_call (Add_transaction _ _ _) = True"
| "is_service_call (Process_purchase _ _ _) = True"
| "is_service_call Recover_failed_transaction = True"
| "is_service_call _ = False"

fun is_service_event :: "event \<Rightarrow> bool" where
  "is_service_event (Called c _) = is_service_call c"
| "is_service_event _ = False"

subsection \<open>The world a handler runs in, and the answers of its collaborators\<close>

text \<open>
  \<open>response_locks\<close>: the users whose response lock is held.
  \<open>cache\<close>: per key the stored value and the instant it expires.
  \<open>responded\<close>: the interactions whose \<open>interaction.response.is_done()\<close> is true.
\<close>

record world =
  response_locks :: "user_id set"
  cache :: "cache_key \<Rightarrow> (bool \<times> nat) option"
  clock :: nat
  responded :: "nat set"
  trace :: "event list"

text \<open>
  The answers of the collaborators during one run of a handler: each awaited call
  returns (\<open>Inr\<close>) or raises (\<open>Inl\<close>); \<open>None\<close> in an \<open>exn option\<close>
  means the call went through. The retry loops ask the cache several times, so its
  answers are indexed by the attempt. \<open>render_error\<close> is the exception, if any, that
  building an embed from the data of a response raises.
\<close>

record env =
  is_maintenance_mode :: "exn + bool"
  check_blacklist :: "user_id \<Rightarrow> exn + bool response option"
  cache_get_error :: "cache_key \<Rightarrow> exn option"
  cache_set_error :: "cache_key \<Rightarrow> nat \<Rightarrow> exn option"
  cache_delete_error :: "cache_key \<Rightarrow> nat \<Rightarrow> exn option"
  get_growid :: "user_id \<Rightarrow> exn + growid option response"
  get_balance :: "growid \<Rightarrow> exn + int response"
  get_transaction_history :: "growid option \<Rightarrow> nat \<Rightarrow> exn + string list response"
  get_daily_limit :: "growid \<Rightarrow> exn + int"
  get_daily_usage :: "growid \<Rightarrow> exn + int"
  get_world_info :: "exn + string response"
  get_all_products :: "exn + product list response"
  get_stock_count :: "product_code \<Rightarrow> exn + int response"
  queue_qsize :: nat
  add_transaction :: "exn option"
  process_purchase :: "exn + nat option response"
  recover_failed_transaction :: "exn option"
  defer_error :: "exn option"
  send_message_error :: "exn option"
  send_modal_error :: "exn option"
  followup_error :: "exn option"
  render_error :: "exn option"

subsection \<open>Sequencing, \<open>raise\<close> and \<open>try\<close>\<close>

type_synonym 'a io = "world \<Rightarrow> (exn + 'a) \<times> world"

definition ret :: "'a \<Rightarrow> 'a io" where
  "ret v s = (Inr v, s)"

definition raise :: "exn \<Rightarrow> 'a io" where
  "raise e s = (Inl e, s)"

definition then_do :: "'a io \<Rightarrow> ('a \<Rightarrow> 'b io) \<Rightarrow> 'b io" where
  "then_do m k s = (case m s of (Inl e, s') \<Rightarrow> (Inl e, s') | (Inr v, s') \<Rightarrow> k v s')"

text \<open>
  \<open>attempt m h k\<close>: run \<open>m\<close> under the handler \<open>h\<close>, then go on with
  \<open>k\<close>, which \<open>h\<close> does not cover. The \<open>except\<close> clauses of the handlers
  read local flags (\<open>response_sent\<close>, whether \<open>purchase_response\<close> is bound) whose
  value is fixed by the place the exception comes from, so a \<open>try\<close> block is cut at
  the assignments to them and each piece gets the handler with the flags of that piece.
\<close>

definition attempt :: "'a io \<Rightarrow> (exn \<Rightarrow> 'b io) \<Rightarrow> ('a \<Rightarrow> 'b io) \<Rightarrow> 'b io" where
  "attempt m h k s = (case m s of (Inl e, s') \<Rightarrow> h e s' | (Inr v, s') \<Rightarrow> k v s')"

text \<open>\<open>except asyncio.TimeoutError: raise ValueError(msg)\<close> around a block.\<close>

definition on_timeout :: "message \<Rightarrow> 'a io \<Rightarrow> 'a io" where
  "on_timeout msg m s =
     (case m s of
        (Inl e, s') \<Rightarrow> (if e = TimeoutError then (Inl (ValueError msg), s') else (Inl e, s'))
      | (Inr v, s') \<Rightarrow> (Inr v, s'))"

text \<open>\<open>try: ... except Exception: (log)\<close>: the block cannot raise.\<close>

definition swallow :: "'a io \<Rightarrow> unit io" where
  "swallow m s = (case m s of (Inl e, s') \<Rightarrow> (Inr (), s') | (Inr v, s') \<Rightarrow> (Inr (), s'))"

definition emit :: "event \<Rightarrow> world \<Rightarrow> world" where
  "emit ev s = s\<lparr>trace := trace s @ [ev]\<rparr>"

text \<open>An awaited call to a collaborator, with the budget of the timeout scope around it.\<close>

definition called :: "call \<Rightarrow> nat option \<Rightarrow> exn + 'a \<Rightarrow> 'a io" where
  "called c budget outcome s = (outcome, emit (Called c budget) s)"

definition called_unit :: "call \<Rightarrow> nat option \<Rightarrow> exn option \<Rightarrow> unit io" where
  "called_unit c budget err =
     called c budget (case err of None \<Rightarrow> Inr () | Some e \<Rightarrow> Inl e)"

text \<open>\<open>asyncio.sleep(n)\<close> lets \<open>n\<close> seconds pass.\<close>

definition sleep :: "nat \<Rightarrow> unit io" where
  "sleep n s = (Inr (), emit (Called (Sleep n) None) (s\<lparr>clock := clock s + n\<rparr>))"

subsection \<open>The cache\<close>

text \<open>
  Modelled from the spec: \<open>CacheManager\<close> (\<open>ext/cache_manager.py\<close>, not among the
  sources). "Keyed by string, holds an opaque value plus expiry timestamp"; "reads of an
  expired entry behave as absent; writes overwrite unconditionally"; a key set with a
  300s expiry is a hit "for any time < 300s and a miss at/after 300s". The handlers wrap
  the calls in \<open>try\<close>, so each call may also raise, as the environment says.
\<close>

definition cache_lookup :: "cache_key \<Rightarrow> world \<Rightarrow> bool option" where
  "cache_lookup k s =
     (case cache s k of
        None \<Rightarrow> None
      | Some (v, expires) \<Rightarrow> if clock s < expires then Some v else None)"

definition cache_get :: "env \<Rightarrow> cache_key \<Rightarrow> bool option io" where
  "cache_get env k s =
     (case cache_get_error env k of
        Some e \<Rightarrow> (Inl e, emit (Called (Cache_get k) None) s)
      | None \<Rightarrow> (Inr (cache_lookup k s), emit (Called (Cache_get k) None) s))"

definition cache_set :: "env \<Rightarrow> cache_key \<Rightarrow> bool \<Rightarrow> nat \<Rightarrow> nat \<Rightarrow> unit io" where
  "cache_set env k v expires_in n s =
     (case cache_set_error env k n of
        Some e \<Rightarrow> (Inl e, emit (Called (Cache_set k v expires_in) None) s)
      | None \<Rightarrow>
          (Inr (), emit (Called (Cache_set k v expires_in) None)
                     (s\<lparr>cache := (cache s)(k := Some (v, clock s + expires_in))\<rparr>)))"

definition cache_delete :: "env \<Rightarrow> cache_key \<Rightarrow> nat \<Rightarrow> unit io" where
  "cache_delete env k n s =
     (case cache_delete_error env k n of
        Some e \<Rightarrow> (Inl e, emit (Called (Cache_delete k) None) s)
      | None \<Rightarrow>
          (Inr (), emit (Called (Cache_delete k) None) (s\<lparr>cache := (cache s)(k := None)\<rparr>)))"

text \<open>
  \<^verbatim>\<open>
  retry_count = 0
  while retry_count < 3:
      try:
          await self.cache_manager.set(rate_limit_key, True, expires_in=300)
          break
      except Exception as e:
          retry_count += 1
          if retry_count == 3: self.logger.error(...)
          await asyncio.sleep(1)
  \<close>
  The answer of the cache to the attempt made with \<open>retry_count = n\<close> is the
  environment's answer number \<open>n\<close>.
\<close>

function set_with_retry :: "env \<Rightarrow> cache_key \<Rightarrow> nat \<Rightarrow> nat \<Rightarrow> world \<Rightarrow> world" where
  "set_with_retry env k expires_in retry_count s =
     (if retry_count < 3 then
        (case cache_set env k True expires_in retry_count s of
           (Inr _, s') \<Rightarrow> s'
         | (Inl e, s') \<Rightarrow> set_with_retry env k expires_in (retry_count + 1) (snd (sleep 1 s')))
      else s)"
  by pat_completeness auto
termination
  by (relation "measure (\<lambda>(env, k, expires_in, retry_count, s). 3 - retry_count)") auto

function delete_with_retry :: "env \<Rightarrow> cache_key \<Rightarrow> nat \<Rightarrow> world \<Rightarrow> world" where
  "delete_with_retry env k retry_count s =
     (if retry_count < 3 then
        (case cache_delete env k retry_count s of
           (Inr _, s') \<Rightarrow> s'
         | (Inl e, s') \<Rightarrow> delete_with_retry env k (retry_count + 1) (snd (sleep 1 s')))
      else s)"
  by pat_completeness auto
termination
  by (relation "measure (\<lambda>(env, k, retry_count, s). 3 - retry_count)") auto

subsection \<open>The response lock\<close>

text \<open>
  Modelled from the spec: \<open>BaseLockHandler.acquire_response_lock\<close> and
  \<open>release_response_lock\<close> (\<open>ext/base_handler.py\<close>, not among the sources). "Keyed
  by user identifier, value = held/not-held"; "at most one concurrent holder per key; a
  second acquire attempt while held fails immediately (non-blocking)". Acquiring is one
  step of the event loop: it either takes the free lock of the interaction's user and
  answers true, or answers false and changes nothing.
\<close>

definition acquire_response_lock :: "interaction \<Rightarrow> world \<Rightarrow> bool \<times> world" where
  "acquire_response_lock i s =
     (if user i \<in> response_locks s then (False, s)
      else (True, s\<lparr>response_locks := insert (user i) (response_locks s)\<rparr>))"

definition release_response_lock :: "interaction \<Rightarrow> world \<Rightarrow> world" where
  "release_response_lock i s = s\<lparr>response_locks := response_locks s - {user i}\<rparr>"

subsection \<open>Answering an interaction\<close>

text \<open>
  \<open>interaction.response\<close> can be used once: \<open>defer\<close>, \<open>send_message\<close> and
  \<open>send_modal\<close> raise when \<open>is_done()\<close> already holds, and set it when they go
  through. \<open>interaction.followup.send\<close> does not touch it. The event is recorded when
  the call is made, whether or not the platform then raises.
\<close>

definition respond ::
  "interaction \<Rightarrow> channel \<Rightarrow> reply option \<Rightarrow> bool \<Rightarrow> exn option \<Rightarrow> unit io" where
  "respond i ch r ephemeral err s =
     (let s1 = emit (Responded (interaction_id i) ch r ephemeral) s in
      if ch = Followup then
        (case err of Some e \<Rightarrow> (Inl e, s1) | None \<Rightarrow> (Inr (), s1))
      else if interaction_id i \<in> responded s then (Inl OtherError, s1)
      else
        (case err of
           Some e \<Rightarrow> (Inl e, s1)
         | None \<Rightarrow> (Inr (), s1\<lparr>responded := insert (interaction_id i) (responded s1)\<rparr>)))"

definition response_defer :: "env \<Rightarrow> interaction \<Rightarrow> unit io" where
  "response_defer env i = respond i Defer None True (defer_error env)"

definition send_message :: "env \<Rightarrow> interaction \<Rightarrow> reply \<Rightarrow> bool \<Rightarrow> unit io" where
  "send_message env i r ephemeral = respond i Send_message (Some r) ephemeral (send_message_error env)"

definition send_modal :: "env \<Rightarrow> interaction \<Rightarrow> modal \<Rightarrow> unit io" where
  "send_modal env i m = respond i Send_modal (Some (Modal m)) False (send_modal_error env)"

definition followup_send :: "env \<Rightarrow> interaction \<Rightarrow> reply \<Rightarrow> bool \<Rightarrow> unit io" where
  "followup_send env i r ephemeral = respond i Followup (Some r) ephemeral (followup_error env)"

text \<open>
  \<open>ShopView._handle_interaction_error\<close> (lines 382 to 404): the error embed goes out
  through \<open>response.send_message\<close> when the interaction has no response yet, through
  \<open>followup.send\<close> otherwise; an exception of the send is logged and dropped.
\<close>

definition handle_interaction_error ::
  "env \<Rightarrow> interaction \<Rightarrow> message \<Rightarrow> bool \<Rightarrow> world \<Rightarrow> world" where
  "handle_interaction_error env i error_msg ephemeral s =
     snd (swallow
       (\<lambda>s. if interaction_id i \<notin> responded s
            then send_message env i (Error_embed error_msg) ephemeral s
            else followup_send env i (Error_embed error_msg) ephemeral s) s)"

subsection \<open>\<open>PurchaseModal.on_submit\<close> (lines 96 to 266)\<close>

text \<open>The two text inputs the user fills in: \<open>self.product_code.value\<close> and
  \<open>self.quantity.value\<close>.\<close>

record purchase_modal =
  product_code_value :: string
  quantity_value :: string

definition upper_char :: "char \<Rightarrow> char" where
  "upper_char c =
     (case map_of (zip ''abcdefghijklmnopqrstuvwxyz'' ''ABCDEFGHIJKLMNOPQRSTUVWXYZ'') c of
        None \<Rightarrow> c
      | Some u \<Rightarrow> u)"

text \<open>\<open>self.product_code.value.strip().upper()\<close>\<close>

definition normalize_code :: "string \<Rightarrow> product_code" where
  "normalize_code txt = map upper_char (strip txt)"

text \<open>
  The error embed of both \<open>except\<close> clauses goes out through \<open>followup.send\<close>
  when \<open>response_sent\<close> holds and through \<open>response.send_message\<close> otherwise; an
  exception of that send leaves \<open>on_submit\<close>.
\<close>

definition send_error :: "env \<Rightarrow> interaction \<Rightarrow> bool \<Rightarrow> message \<Rightarrow> unit io" where
  "send_error env i response_sent m =
     (if response_sent then followup_send env i (Error_embed m) True
      else send_message env i (Error_embed m) True)"

text \<open>
  Lines 247 to 256: the recovery inquiry, ten seconds at most, any exception logged and
  dropped. \<open>purchase_response.data.get('transaction_id')\<close> raises inside the
  \<open>try\<close> when the response carries no data, before any call is made.
\<close>

definition recover :: "env \<Rightarrow> nat option response \<Rightarrow> unit io" where
  "recover env purchase_response =
     swallow
       (case data purchase_response of
          None \<Rightarrow> raise OtherError
        | Some transaction_id \<Rightarrow>
            called_unit Recover_failed_transaction (Some 10) (recover_failed_transaction env))"

text \<open>
  The two \<open>except\<close> clauses (lines 231 to 266). \<open>purchase_response\<close> is
  \<open>None\<close> while the local of that name is unbound.
\<close>

definition on_submit_except ::
  "env \<Rightarrow> interaction \<Rightarrow> bool \<Rightarrow> nat option response option \<Rightarrow> exn \<Rightarrow> unit io" where
  "on_submit_except env i response_sent purchase_response e =
     (case e of
        ValueError m \<Rightarrow> send_error env i response_sent m
      | _ \<Rightarrow>
          then_do
            (case purchase_response of None \<Rightarrow> ret () | Some r \<Rightarrow> recover env r)
            (\<lambda>_. send_error env i response_sent ERROR_TRANSACTION_FAILED))"

text \<open>Lines 100 to 105: the rate-limit read, then the deferral.\<close>

definition on_submit_rate_limit :: "env \<Rightarrow> interaction \<Rightarrow> unit io" where
  "on_submit_rate_limit env i =
     then_do (cache_get env (Purchase_limit (user i)))
       (\<lambda>hit. if hit = Some True then raise (ValueError ERROR_RATE_LIMIT)
              else response_defer env i)"

text \<open>
  Lines 107 to 140: the rate-limit write with its retries, the two inputs, the GrowID
  lookup within ten seconds.
\<close>

definition on_submit_checks ::
  "env \<Rightarrow> purchase_modal \<Rightarrow> interaction \<Rightarrow> (product_code \<times> int \<times> growid option) io" where
  "on_submit_checks env modal i =
     then_do (\<lambda>s. (Inr (), set_with_retry env (Purchase_limit (user i)) 300 0 s))
       (\<lambda>_. let product_code = normalize_code (product_code_value modal) in
          then_do (\<lambda>s. (validate_quantity (quantity_value modal), s))
            (\<lambda>quantity.
               then_do
                 (on_timeout ERROR_TIMEOUT
                    (then_do (called (Get_growid (user i)) (Some 10) (get_growid env (user i)))
                       (\<lambda>growid_response.
                          if \<not> success growid_response
                          then raise (ValueError (Backend_text (error growid_response)))
                          else ret (data growid_response))))
                 (\<lambda>growid. ret (product_code, quantity, growid))))"

text \<open>Lines 143 to 157: the large order is put on the queue and acknowledged.\<close>

definition on_submit_queued ::
  "env \<Rightarrow> interaction \<Rightarrow> product_code \<Rightarrow> int \<Rightarrow> unit io" where
  "on_submit_queued env i product_code quantity =
     then_do
       (called_unit (Add_transaction (user i) product_code quantity) None (add_transaction env))
       (\<lambda>_. followup_send env i Processing_embed True)"

text \<open>Lines 160 to 168: the purchase call within thirty seconds.\<close>

definition on_submit_purchase ::
  "env \<Rightarrow> interaction \<Rightarrow> product_code \<Rightarrow> int \<Rightarrow> nat option response io" where
  "on_submit_purchase env i product_code quantity =
     on_timeout ERROR_TRANSACTION_TIMEOUT
       (called (Process_purchase (user i) product_code quantity) (Some 30)
          (process_purchase env))"

text \<open>\<open>f"balance_{growid}"\<close> for a GrowID that may be \<open>None\<close>.\<close>

definition balance_key :: "growid option \<Rightarrow> cache_key" where
  "balance_key growid = Balance_key (case growid of None \<Rightarrow> ''None'' | Some g \<Rightarrow> g)"

definition invalidate :: "env \<Rightarrow> cache_key list \<Rightarrow> world \<Rightarrow> world" where
  "invalidate env cache_keys s = foldl (\<lambda>s k. delete_with_retry env k 0 s) s cache_keys"

text \<open>Building an embed from the data of a response, which may raise.\<close>

definition render :: "env \<Rightarrow> unit io" where
  "render env = (case render_error env of None \<Rightarrow> ret () | Some e \<Rightarrow> raise e)"

text \<open>
  Lines 170 to 229: a refused purchase raises its error text; otherwise the embed is
  built, the three cache keys are deleted, each with its retries, and the result is sent.
\<close>

definition on_submit_finish ::
  "env \<Rightarrow> interaction \<Rightarrow> product_code \<Rightarrow> int \<Rightarrow> growid option \<Rightarrow> nat option response \<Rightarrow> unit io"
  where
  "on_submit_finish env i product_code quantity growid purchase_response =
     (if \<not> success purchase_response
      then raise (ValueError (Backend_text (error purchase_response)))
      else
        then_do (render env)
          (\<lambda>_. then_do
             (\<lambda>s. (Inr (), invalidate env
                      [balance_key growid, Stock_key product_code, History_key (user i)] s))
             (\<lambda>_. followup_send env i (Purchase_success_embed quantity) True)))"

definition on_submit :: "env \<Rightarrow> purchase_modal \<Rightarrow> interaction \<Rightarrow> unit io" where
  "on_submit env modal i =
     attempt (on_submit_rate_limit env i) (on_submit_except env i False None)
       (\<lambda>_. attempt (on_submit_checks env modal i) (on_submit_except env i True None)
          (\<lambda>(product_code, quantity, growid).
             if quantity > 10 then
               attempt (on_submit_queued env i product_code quantity)
                 (on_submit_except env i True None) ret
             else
               attempt (on_submit_purchase env i product_code quantity)
                 (on_submit_except env i True None)
                 (\<lambda>purchase_response.
                    attempt
                      (on_submit_finish env i product_code quantity growid purchase_response)
                      (on_submit_except env i True (Some purchase_response)) ret)))"

subsection \<open>The button callbacks of \<open>ShopView\<close> (lines 411 to 889)\<close>

text \<open>
  All five callbacks have one shape:
  \<^verbatim>\<open>
  if not await self.acquire_response_lock(interaction):
      await self._handle_interaction_error(interaction, MESSAGES.INFO['COOLDOWN'])
      return
  try: ...
  except ValueError as e: await self._handle_interaction_error(interaction, str(e), ...)
  except Exception as e:  await self._handle_interaction_error(interaction, <failure>, ...)
  finally: self.release_response_lock(interaction)
  \<close>
  \<open>try_except\<close> is the \<open>try\<close> with its \<open>except\<close> clauses; the clauses end
  in \<open>_handle_interaction_error\<close>, which raises nothing, so the block yields a world.
\<close>

definition try_except :: "unit io \<Rightarrow> (exn \<Rightarrow> world \<Rightarrow> world) \<Rightarrow> world \<Rightarrow> world" where
  "try_except m h s = (case m s of (Inl e, s') \<Rightarrow> h e s' | (Inr _, s') \<Rightarrow> s')"

text \<open>\<open>if await self.admin_service.is_maintenance_mode(): raise ValueError(...)\<close>\<close>

definition check_maintenance :: "env \<Rightarrow> unit io" where
  "check_maintenance env =
     then_do (called Is_maintenance_mode None (is_maintenance_mode env))
       (\<lambda>maintenance. if maintenance then raise (ValueError INFO_MAINTENANCE) else ret ())"

text \<open>The two \<open>except\<close> clauses, with the failure message of the callback.\<close>

definition callback_except ::
  "env \<Rightarrow> interaction \<Rightarrow> message \<Rightarrow> bool \<Rightarrow> exn \<Rightarrow> world \<Rightarrow> world" where
  "callback_except env i failure ephemeral e =
     (case e of
        ValueError m \<Rightarrow> handle_interaction_error env i m ephemeral
      | _ \<Rightarrow> handle_interaction_error env i failure ephemeral)"

paragraph \<open>\<open>register_callback\<close> (lines 411 to 470)\<close>

definition register_try :: "env \<Rightarrow> interaction \<Rightarrow> unit io" where
  "register_try env i =
     then_do (check_maintenance env)
       (\<lambda>_. then_do (cache_get env (Register_limit (user i)))
          (\<lambda>hit.
             if hit = Some True then raise (ValueError ERROR_RATE_LIMIT)
             else
               then_do (called (Check_blacklist (user i)) None (check_blacklist env (user i)))
                 (\<lambda>blacklist_check.
                    if (case blacklist_check of None \<Rightarrow> False | Some r \<Rightarrow> success r \<and> data r)
                    then raise (ValueError ERROR_USER_BLACKLISTED)
                    else
                      then_do (called (Get_growid (user i)) None (get_growid env (user i)))
                        (\<lambda>growid_response.
                           let existing_growid =
                                 (if success growid_response
                                     \<and> data growid_response \<noteq> None
                                     \<and> data growid_response \<noteq> Some []
                                  then data growid_response else None)
                           in then_do (cache_set env (Register_limit (user i)) True 300 0)
                                (\<lambda>_. send_modal env i (Register_modal existing_growid))))))"

definition register_callback :: "env \<Rightarrow> interaction \<Rightarrow> world \<Rightarrow> world" where
  "register_callback env i s =
     (case acquire_response_lock i s of
        (False, s1) \<Rightarrow> handle_interaction_error env i INFO_COOLDOWN True s1
      | (True, s1) \<Rightarrow>
          release_response_lock i
            (try_except (register_try env i)
               (callback_except env i ERROR_REGISTRATION_FAILED True) s1))"

paragraph \<open>\<open>balance_callback\<close> (lines 477 to 592)\<close>

text \<open>
  \<open>response_sent\<close> turns true after the deferral, and the \<open>except\<close> clauses pass
  it on as the \<open>ephemeral\<close> argument; the \<open>try\<close> is cut there.
\<close>

definition maintenance_then_defer :: "env \<Rightarrow> interaction \<Rightarrow> unit io" where
  "maintenance_then_defer env i = then_do (check_maintenance env) (\<lambda>_. response_defer env i)"

definition balance_try :: "env \<Rightarrow> interaction \<Rightarrow> unit io" where
  "balance_try env i =
     then_do (called (Get_growid (user i)) None (get_growid env (user i)))
       (\<lambda>growid_response.
          if \<not> success growid_response
          then raise (ValueError (Backend_text (error growid_response)))
          else
            (case data growid_response of
               None \<Rightarrow> raise (ValueError ERROR_NOT_REGISTERED)
             | Some growid \<Rightarrow>
                 if growid = [] then raise (ValueError ERROR_NOT_REGISTERED)
                 else
                   then_do
                     (on_timeout ERROR_TIMEOUT
                        (then_do (called (Get_balance growid) (Some 10) (get_balance env growid))
                           (\<lambda>balance_response.
                              if \<not> success balance_response
                              then raise (ValueError (Backend_text (error balance_response)))
                              else ret balance_response)))
                     (\<lambda>balance_response.
                        then_do (render env)
                          (\<lambda>_. then_do
                             (swallow
                                (called (Get_transaction_history (Some growid) 3) (Some 10)
                                   (get_transaction_history env (Some growid) 3)))
                             (\<lambda>_. then_do
                                (swallow
                                   (then_do
                                      (called (Get_daily_limit growid) None
                                         (get_daily_limit env growid))
                                      (\<lambda>daily_limit.
                                         called (Get_daily_usage growid) None
                                           (get_daily_usage env growid))))
                                (\<lambda>_. followup_send env i (Balance_embed growid) True))))))"

definition balance_callback :: "env \<Rightarrow> interaction \<Rightarrow> world \<Rightarrow> world" where
  "balance_callback env i s =
     (case acquire_response_lock i s of
        (False, s1) \<Rightarrow> handle_interaction_error env i INFO_COOLDOWN True s1
      | (True, s1) \<Rightarrow>
          release_response_lock i
            (case maintenance_then_defer env i s1 of
               (Inl e, s2) \<Rightarrow> callback_except env i ERROR_BALANCE_FAILED False e s2
             | (Inr _, s2) \<Rightarrow>
                 try_except (balance_try env i)
                   (callback_except env i ERROR_BALANCE_FAILED True) s2))"

paragraph \<open>\<open>world_info_callback\<close> (lines 599 to 691)\<close>

definition world_info_try :: "env \<Rightarrow> interaction \<Rightarrow> unit io" where
  "world_info_try env i =
     then_do
       (on_timeout ERROR_TIMEOUT
          (then_do (called Get_world_info (Some 10) (get_world_info env))
             (\<lambda>world_response.
                if \<not> success world_response
                then raise (ValueError (Backend_text (error world_response)))
                else ret world_response)))
       (\<lambda>world_response.
          then_do (render env) (\<lambda>_. followup_send env i World_info_embed True))"

definition world_info_callback :: "env \<Rightarrow> interaction \<Rightarrow> world \<Rightarrow> world" where
  "world_info_callback env i s =
     (case acquire_response_lock i s of
        (False, s1) \<Rightarrow> handle_interaction_error env i INFO_COOLDOWN True s1
      | (True, s1) \<Rightarrow>
          release_response_lock i
            (case maintenance_then_defer env i s1 of
               (Inl e, s2) \<Rightarrow> callback_except env i ERROR_WORLD_INFO_FAILED False e s2
             | (Inr _, s2) \<Rightarrow>
                 try_except (world_info_try env i)
                   (callback_except env i ERROR_WORLD_INFO_FAILED True) s2))"

paragraph \<open>\<open>buy_callback\<close> (lines 698 to 786)\<close>

text \<open>
  Lines 742 to 754: the stock of each product is asked within five seconds; a product
  whose answer is late, raises, fails or shows no stock is left out.
\<close>

fun available_products :: "env \<Rightarrow> product list \<Rightarrow> world \<Rightarrow> product list \<times> world" where
  "available_products env [] s = ([], s)"
| "available_products env (p # ps) s =
     (case called (Get_stock_count (code p)) (Some 5) (get_stock_count env (code p)) s of
        (Inl e, s') \<Rightarrow> available_products env ps s'
      | (Inr stock_response, s') \<Rightarrow>
          if success stock_response \<and> data stock_response > 0 then
            (case available_products env ps s' of
               (available, s'') \<Rightarrow> (p\<lparr>stock := data stock_response\<rparr> # available, s''))
          else available_products env ps s')"

definition buy_try :: "env \<Rightarrow> interaction \<Rightarrow> unit io" where
  "buy_try env i =
     then_do (cache_get env (Buy_button (user i)))
       (\<lambda>hit.
          if hit = Some True then raise (ValueError ERROR_RATE_LIMIT)
          else
            then_do (called Queue_qsize None (Inr (queue_qsize env)))
              (\<lambda>queue_size.
                 if queue_size > 50 then raise (ValueError ERROR_SYSTEM_BUSY)
                 else
                   then_do (check_maintenance env)
                     (\<lambda>_. then_do
                        (called (Check_blacklist (user i)) None (check_blacklist env (user i)))
                        (\<lambda>blacklist_check.
                           case blacklist_check of
                             None \<Rightarrow> raise OtherError
                           | Some r \<Rightarrow>
                               if success r \<and> data r
                               then raise (ValueError ERROR_USER_BLACKLISTED)
                               else
                                 then_do
                                   (called (Get_growid (user i)) None (get_growid env (user i)))
                                   (\<lambda>growid_response.
                                      if \<not> success growid_response
                                      then raise (ValueError
                                                   (Backend_text (error growid_response)))
                                      else
                                        then_do
                                          (on_timeout ERROR_TIMEOUT
                                             (then_do
                                                (called Get_all_products (Some 10)
                                                   (get_all_products env))
                                                (\<lambda>product_response.
                                                   if \<not> success product_response
                                                      \<or> data product_response = []
                                                   then raise (ValueError ERROR_NO_PRODUCTS)
                                                   else ret product_response)))
                                          (\<lambda>product_response.
                                             then_do
                                               (\<lambda>s. case available_products env
                                                           (data product_response) s of
                                                      (available, s') \<Rightarrow> (Inr available, s'))
                                               (\<lambda>available.
                                                  if available = []
                                                  then raise (ValueError ERROR_OUT_OF_STOCK)
                                                  else
                                                    then_do (render env)
                                                      (\<lambda>_. then_do
                                                         (cache_set env (Buy_button (user i))
                                                            True 60 0)
                                                         (\<lambda>_. send_modal env i
                                                                (Purchase_modal available))))))))))"

definition buy_callback :: "env \<Rightarrow> interaction \<Rightarrow> world \<Rightarrow> world" where
  "buy_callback env i s =
     (case acquire_response_lock i s of
        (False, s1) \<Rightarrow> handle_interaction_error env i INFO_COOLDOWN True s1
      | (True, s1) \<Rightarrow>
          release_response_lock i
            (try_except (buy_try env i)
               (callback_except env i ERROR_TRANSACTION_FAILED True) s1))"

paragraph \<open>\<open>history_callback\<close> (lines 793 to 889)\<close>

definition history_try :: "env \<Rightarrow> interaction \<Rightarrow> unit io" where
  "history_try env i =
     then_do (called (Get_growid (user i)) None (get_growid env (user i)))
       (\<lambda>growid_response.
          if \<not> success growid_response
          then raise (ValueError (Backend_text (error growid_response)))
          else
            (let growid = data growid_response in
             then_do
               (on_timeout ERROR_TIMEOUT
                  (then_do
                     (called (Get_transaction_history growid 5) (Some 10)
                        (get_transaction_history env growid 5))
                     (\<lambda>history_response.
                        if \<not> success history_response
                        then raise (ValueError (Backend_text (error history_response)))
                        else ret history_response)))
               (\<lambda>history_response.
                  if data history_response = [] then raise (ValueError ERROR_NO_HISTORY)
                  else followup_send env i (History_embed growid) True)))"

definition history_callback :: "env \<Rightarrow> interaction \<Rightarrow> world \<Rightarrow> world" where
  "history_callback env i s =
     (case acquire_response_lock i s of
        (False, s1) \<Rightarrow> handle_interaction_error env i INFO_COOLDOWN True s1
      | (True, s1) \<Rightarrow>
          release_response_lock i
            (case maintenance_then_defer env i s1 of
               (Inl e, s2) \<Rightarrow> callback_except env i ERROR_HISTORY_FAILED False e s2
             | (Inr _, s2) \<Rightarrow>
                 try_except (history_try env i)
                   (callback_except env i ERROR_HISTORY_FAILED True) s2))"

subsection \<open>\<open>LiveButtonManager\<close> (lines 891 to 1242)\<close>

text \<open>
  A message handle is the identity of a message of the channel. The storefront message
  shows an embed and may carry the view with the buttons.
\<close>

type_synonym msg_id = nat

datatype embed = Stock_embed | Initializing_embed | Maintenance_embed

record content =
  shown :: embed
  has_view :: bool

text \<open>
  The stock manager is an object shared with \<open>LiveStockCog\<close>; the button manager
  holds a reference to it and writes its field \<open>current_stock_message\<close>. Objects live
  in \<open>providers\<close>, by reference. \<open>messages\<close> are the messages that exist in the
  channel, \<open>next_message_id\<close> is the handle the next \<open>channel.send\<close> creates.
  \<open>setup_calls\<close> counts the calls of \<open>setup_dependencies\<close> and \<open>slept\<close> adds
  up the seconds of \<open>asyncio.sleep\<close>; the class has no such fields.
\<close>

record manager =
  current_message :: "msg_id option"
  stock_manager :: "nat option"
  providers :: "nat \<Rightarrow> msg_id option"
  ready :: bool
  initialization_retries :: nat
  max_initialization_retries :: nat
  messages :: "msg_id \<Rightarrow> content option"
  next_message_id :: msg_id
  setup_calls :: nat
  slept :: nat

text \<open>\<open>self.stock_manager.current_stock_message\<close>, \<open>None\<close> without a stock manager.\<close>

definition current_stock_message :: "manager \<Rightarrow> msg_id option" where
  "current_stock_message s =
     (case stock_manager s of None \<Rightarrow> None | Some r \<Rightarrow> providers s r)"

definition set_current_stock_message :: "msg_id option \<Rightarrow> manager \<Rightarrow> manager" where
  "set_current_stock_message m s =
     (case stock_manager s of
        None \<Rightarrow> s
      | Some r \<Rightarrow> s\<lparr>providers := (providers s)(r := m)\<rparr>)"

text \<open>
  The answers of the platform, the admin service and the stock manager during one call
  of \<open>get_or_create_message\<close> or \<open>force_update\<close>.
\<close>

record answers =
  channel_found :: bool
  maintenance_mode :: "exn + bool"
  edit_error :: "msg_id \<Rightarrow> exn option"
  find_last_message :: "exn + msg_id option"
  create_stock_embed :: "exn option"
  channel_send_error :: "exn option"
  update_stock_display :: "(msg_id \<Rightarrow> content option) \<Rightarrow> exn + (msg_id \<Rightarrow> content option)"

text \<open>
  \<open>message.edit\<close>: \<open>discord.NotFound\<close> for a message that is gone, else whatever
  the platform raises, else the message shows the new embed (when one is passed) and the
  new view (\<open>Some True\<close> for a view, \<open>Some False\<close> for \<open>view=None\<close>, which
  removes the buttons; \<open>None\<close> when the argument is left out).
\<close>

definition edit ::
  "answers \<Rightarrow> msg_id \<Rightarrow> embed option \<Rightarrow> bool option \<Rightarrow> manager \<Rightarrow> exn + manager" where
  "edit env m new_embed new_view s =
     (case messages s m of
        None \<Rightarrow> Inl NotFound
      | Some c \<Rightarrow>
          (case edit_error env m of
             Some e \<Rightarrow> Inl e
           | None \<Rightarrow>
               Inr (s\<lparr>messages := (messages s)(m := Some
                      \<lparr>shown = (case new_embed of None \<Rightarrow> shown c | Some e \<Rightarrow> e),
                       has_view = (case new_view of None \<Rightarrow> has_view c | Some v \<Rightarrow> v)\<rparr>)\<rparr>)))"

text \<open>\<open>channel.send(embed=embed, view=view)\<close> creates a message with a fresh handle.\<close>

definition channel_send :: "answers \<Rightarrow> embed \<Rightarrow> manager \<Rightarrow> exn + (msg_id \<times> manager)" where
  "channel_send env e s =
     (case channel_send_error env of
        Some x \<Rightarrow> Inl x
      | None \<Rightarrow>
          Inr (next_message_id s,
               s\<lparr>messages := (messages s)(next_message_id s := Some \<lparr>shown = e, has_view = True\<rparr>),
                 next_message_id := next_message_id s + 1\<rparr>))"

paragraph \<open>\<open>get_or_create_message\<close> (lines 1006 to 1081)\<close>

text \<open>
  The section \<open>async with self._lock\<close> belongs to \<open>BaseLockHandler\<close>, which is not
  among the sources. Modelled from the spec: "a single mutual-exclusion section
  (serializing concurrent reconciliation attempts)"; a caller that runs alone enters it
  at once, also \<open>force_update\<close> when it calls \<open>get_or_create_message\<close> inside it.

  Lines 1019 to 1031: the handle the stock manager knows is taken over and the view is
  attached again; when the edit raises, only \<open>self.current_message\<close> is cleared.
\<close>

definition reuse_known_message :: "answers \<Rightarrow> manager \<Rightarrow> msg_id option \<times> manager" where
  "reuse_known_message env s =
     (case current_stock_message s of
        None \<Rightarrow> (None, s)
      | Some m \<Rightarrow>
          (let s1 = s\<lparr>current_message := Some m\<rparr> in
           case edit env m None (Some True) s1 of
             Inr s2 \<Rightarrow> (Some m, s2)
           | Inl e \<Rightarrow> (None, s1\<lparr>current_message := None\<rparr>)))"

text \<open>
  Lines 1034 to 1051: the stock manager looks for its last message, ten seconds at most;
  both handles are set before the embed is made and the message edited, and an exception
  of either is logged and dropped.
\<close>

definition find_last_valid_message :: "answers \<Rightarrow> manager \<Rightarrow> msg_id option \<times> manager" where
  "find_last_valid_message env s =
     (if stock_manager s = None then (None, s)
      else
        (case find_last_message env of
           Inl e \<Rightarrow> (None, s)
         | Inr None \<Rightarrow> (None, s)
         | Inr (Some existing_message) \<Rightarrow>
             (let s1 = set_current_stock_message (Some existing_message)
                         (s\<lparr>current_message := Some existing_message\<rparr>) in
              case create_stock_embed env of
                Some e \<Rightarrow> (None, s1)
              | None \<Rightarrow>
                  (case edit env existing_message (Some Stock_embed) (Some True) s1 of
                     Inl e \<Rightarrow> (None, s1)
                   | Inr s2 \<Rightarrow> (Some existing_message, s2)))))"

text \<open>
  Lines 1054 to 1077: a new message, with the stock embed when a stock manager is there
  and the "initializing" embed otherwise; any exception gives \<open>None\<close>.
\<close>

definition create_new_message :: "answers \<Rightarrow> manager \<Rightarrow> msg_id option \<times> manager" where
  "create_new_message env s =
     (case (if stock_manager s \<noteq> None
            then (case create_stock_embed env of Some e \<Rightarrow> Inl e | None \<Rightarrow> Inr Stock_embed)
            else Inr Initializing_embed) of
        Inl e \<Rightarrow> (None, s)
      | Inr new_embed \<Rightarrow>
          (case channel_send env new_embed s of
             Inl e \<Rightarrow> (None, s)
           | Inr (m, s1) \<Rightarrow>
               (Some m, set_current_stock_message (Some m) (s1\<lparr>current_message := Some m\<rparr>))))"

definition get_or_create_message :: "answers \<Rightarrow> manager \<Rightarrow> msg_id option \<times> manager" where
  "get_or_create_message env s =
     (if \<not> channel_found env then (None, s)
      else
        (case reuse_known_message env s of
           (Some m, s1) \<Rightarrow> (Some m, s1)
         | (None, s1) \<Rightarrow>
             (case find_last_valid_message env s1 of
                (Some m, s2) \<Rightarrow> (Some m, s2)
              | (None, s2) \<Rightarrow> create_new_message env s2)))"

paragraph \<open>\<open>force_update\<close> (lines 1083 to 1142)\<close>

text \<open>
  Every exception inside ends in \<open>return False\<close>, the expiry of the 30 second
  deadline too. \<open>update_stock_display\<close> (lines 1115 to 1120) is the stock
  manager's own refresh of the display: the environment says what it does to the
  messages of the channel, and its exception is logged and dropped.
\<close>

definition force_update :: "answers \<Rightarrow> manager \<Rightarrow> bool \<times> manager" where
  "force_update env s =
     (case (case current_message s of
              Some m \<Rightarrow> (Some m, s)
            | None \<Rightarrow>
                (case get_or_create_message env s of
                   (r, s1) \<Rightarrow> (r, s1\<lparr>current_message := r\<rparr>))) of
        (None, s1) \<Rightarrow> (False, s1)
      | (Some m, s1) \<Rightarrow>
          (case maintenance_mode env of
             Inl e \<Rightarrow> (False, s1)
           | Inr True \<Rightarrow>
               (case edit env m (Some Maintenance_embed) (Some False) s1 of
                  Inl e \<Rightarrow> (False, s1)
                | Inr s2 \<Rightarrow> (True, s2))
           | Inr False \<Rightarrow>
               (let s2 = (if stock_manager s1 = None then s1
                          else (case update_stock_display env (messages s1) of
                                  Inl e \<Rightarrow> s1
                                | Inr shown_now \<Rightarrow> s1\<lparr>messages := shown_now\<rparr>))
                in case edit env m None (Some True) s2 of
                     Inr s3 \<Rightarrow> (True, s3)
                   | Inl e \<Rightarrow>
                       if e = NotFound then (False, s2\<lparr>current_message := None\<rparr>)
                       else (False, s2))))"

paragraph \<open>\<open>initialize\<close> and \<open>setup_dependencies\<close> (lines 911 to 981)\<close>

text \<open>
  What the awaited \<open>self.stock_manager._ready.wait()\<close> does: the event is set; or the
  ten seconds of \<open>wait_for_stock_manager_ready\<close> run out; or the wait raises; or the
  twenty seconds of the attempt run out first, which cancels the wait and leaves
  \<open>setup_dependencies\<close> as a \<open>TimeoutError\<close> of the attempt.
\<close>

datatype wait_outcome = Ready | Not_ready | Wait_raises | Attempt_deadline

text \<open>
  The answers to one attempt: the \<open>stock_manager\<close> attribute of the cog
  (\<open>None\<close> when \<open>bot.get_cog\<close> finds no cog or the cog has no such attribute,
  \<open>Some None\<close> when the attribute is \<open>None\<close>), the wait, and whether
  \<open>bot.get_channel\<close> finds the channel.
\<close>

record setup_answers =
  cog_stock_manager :: "nat option option"
  ready_wait :: wait_outcome
  channel_resolves :: bool

definition wait_for_stock_manager_ready :: "setup_answers \<Rightarrow> manager \<Rightarrow> exn + bool" where
  "wait_for_stock_manager_ready a s =
     (if stock_manager s = None then Inr False
      else
        (case ready_wait a of
           Ready \<Rightarrow> Inr True
         | Not_ready \<Rightarrow> Inr False
         | Wait_raises \<Rightarrow> Inr False
         | Attempt_deadline \<Rightarrow> Inl TimeoutError))"

definition setup_dependencies :: "setup_answers \<Rightarrow> manager \<Rightarrow> (exn + bool) \<times> manager" where
  "setup_dependencies a s =
     (let s0 = s\<lparr>setup_calls := setup_calls s + 1\<rparr> in
      case cog_stock_manager a of
        None \<Rightarrow> (Inr False, s0)
      | Some r \<Rightarrow>
          (let s1 = s0\<lparr>stock_manager := r\<rparr> in
           case wait_for_stock_manager_ready a s1 of
             Inl e \<Rightarrow> (Inl e, s1)
           | Inr False \<Rightarrow> (Inr False, s1)
           | Inr True \<Rightarrow> (if \<not> channel_resolves a then (Inr False, s1) else (Inr True, s1))))"

text \<open>
  \<^verbatim>\<open>
  while self.initialization_retries < self.max_initialization_retries:
      try:
          async with asyncio.timeout(20):
              if await self.setup_dependencies():
                  self._ready.set()
                  return True
      except asyncio.TimeoutError:
          self.initialization_retries += 1
          if self.initialization_retries < self.max_initialization_retries:
              await asyncio.sleep(5)
          continue
      except Exception as e:
          (the same)
  return False
  \<close>
  One unit of fuel is one pass through the loop; \<open>None\<close> is a loop that has not
  left after all the fuel. The environment answers the \<open>n\<close>-th pass with
  \<open>answer n\<close>.
\<close>

fun initialize_loop ::
  "nat \<Rightarrow> (nat \<Rightarrow> setup_answers) \<Rightarrow> nat \<Rightarrow> manager \<Rightarrow> (bool \<times> manager) option" where
  "initialize_loop 0 answer n s = None"
| "initialize_loop (Suc fuel) answer n s =
     (if initialization_retries s < max_initialization_retries s then
        (case setup_dependencies (answer n) s of
           (Inr True, s1) \<Rightarrow> Some (True, s1\<lparr>ready := True\<rparr>)
         | (Inr False, s1) \<Rightarrow> initialize_loop fuel answer (n + 1) s1
         | (Inl e, s1) \<Rightarrow>
             (let s2 = s1\<lparr>initialization_retries := initialization_retries s1 + 1\<rparr>;
                  s3 = (if initialization_retries s2 < max_initialization_retries s2
                        then s2\<lparr>slept := slept s2 + 5\<rparr> else s2)
              in initialize_loop fuel answer (n + 1) s3))
      else Some (False, s))"

definition initialize ::
  "nat \<Rightarrow> (nat \<Rightarrow> setup_answers) \<Rightarrow> manager \<Rightarrow> (bool \<times> manager) option" where
  "initialize fuel answer s = initialize_loop fuel answer 0 s"

text \<open>The manager as \<open>__init__\<close> leaves it (lines 892 to 909), in an empty channel.\<close>

definition new_manager :: manager where
  "new_manager =
     \<lparr>current_message = None, stock_manager = None, providers = (\<lambda>r. None), ready = False,
      initialization_retries = 0, max_initialization_retries = 3,
      messages = (\<lambda>m. None), next_message_id = 0, setup_calls = 0, slept = 0\<rparr>"

subsection \<open>Sample states and answers of the manager\<close>

text \<open>
  \<open>shop_open\<close>: one storefront message, handle 0, with the stock embed and the
  buttons, known to the manager and to the stock manager (object 0).
\<close>

definition shop_open :: manager where
  "shop_open =
     \<lparr>current_message = Some 0, stock_manager = Some 0,
      providers = (\<lambda>r. if r = 0 then Some 0 else None), ready = True,
      initialization_retries = 0, max_initialization_retries = 3,
      messages = (\<lambda>m. if m = 0 then Some \<lparr>shown = Stock_embed, has_view = True\<rparr> else None),
      next_message_id = 1, setup_calls = 1, slept = 0\<rparr>"

text \<open>\<open>shop_stale\<close>: both hold handle 7, and that message has been deleted.\<close>

definition shop_stale :: manager where
  "shop_stale =
     \<lparr>current_message = Some 7, stock_manager = Some 0,
      providers = (\<lambda>r. if r = 0 then Some 7 else None), ready = True,
      initialization_retries = 0, max_initialization_retries = 3,
      messages = (\<lambda>m. None), next_message_id = 8, setup_calls = 1, slept = 0\<rparr>"

definition calm_answers :: answers where
  "calm_answers =
     \<lparr>channel_found = True, maintenance_mode = Inr False, edit_error = (\<lambda>m. None),
      find_last_message = Inr None, create_stock_embed = None, channel_send_error = None,
      update_stock_display = Inr\<rparr>"

definition maintenance_answers :: answers where
  "maintenance_answers = calm_answers\<lparr>maintenance_mode := Inr True\<rparr>"

text \<open>The channel refuses new messages (missing permission, say).\<close>

definition send_refused :: answers where
  "send_refused = calm_answers\<lparr>channel_send_error := Some OtherError\<rparr>"

text \<open>\<open>bot.get_cog('LiveStockCog')\<close> finds no cog.\<close>

definition no_cog :: setup_answers where
  "no_cog = \<lparr>cog_stock_manager = None, ready_wait = Ready, channel_resolves = True\<rparr>"

text \<open>The stock manager is there and its ready event is not set within ten seconds.\<close>

definition never_ready :: setup_answers where
  "never_ready =
     \<lparr>cog_stock_manager = Some (Some 0), ready_wait = Not_ready, channel_resolves = True\<rparr>"

text \<open>The twenty seconds of the attempt run out during the wait.\<close>

definition past_deadline :: setup_answers where
  "past_deadline =
     \<lparr>cog_stock_manager = Some (Some 0), ready_wait = Attempt_deadline,
      channel_resolves = True\<rparr>"

subsection \<open>Sample worlds and answers of the handlers\<close>

definition ok :: "'a \<Rightarrow> 'a response" where
  "ok d = \<lparr>success = True, data = d, error = []\<rparr>"

text \<open>Every collaborator answers, nobody is blacklisted, nothing is rate-limited.\<close>

definition calm_env :: env where
  "calm_env =
     \<lparr>is_maintenance_mode = Inr False,
      check_blacklist = (\<lambda>u. Inr (Some (ok False))),
      cache_get_error = (\<lambda>k. None),
      cache_set_error = (\<lambda>k n. None),
      cache_delete_error = (\<lambda>k n. None),
      get_growid = (\<lambda>u. Inr (ok (Some ''PLAYER_ONE''))),
      get_balance = (\<lambda>g. Inr (ok 100)),
      get_transaction_history = (\<lambda>g n. Inr (ok [''deposit''])),
      get_daily_limit = (\<lambda>g. Inr 1000),
      get_daily_usage = (\<lambda>g. Inr 0),
      get_world_info = Inr (ok ''BUYWORLD''),
      get_all_products = Inr (ok [\<lparr>code = ''FW'', name = ''Firework'', price = 5, stock = 0\<rparr>]),
      get_stock_count = (\<lambda>c. Inr (ok 20)),
      queue_qsize = 0,
      add_transaction = None,
      process_purchase = Inr (ok (Some 1)),
      recover_failed_transaction = None,
      defer_error = None,
      send_message_error = None,
      send_modal_error = None,
      followup_error = None,
      render_error = None\<rparr>"

definition maintenance_env :: env where
  "maintenance_env = calm_env\<lparr>is_maintenance_mode := Inr True\<rparr>"

definition blacklisting_env :: env where
  "blacklisting_env = calm_env\<lparr>check_blacklist := (\<lambda>u. Inr (Some (ok True)))\<rparr>"

definition fresh_world :: world where
  "fresh_world = \<lparr>response_locks = {}, cache = (\<lambda>k. None), clock = 0, responded = {}, trace = []\<rparr>"

definition visitor :: interaction where
  "visitor = \<lparr>interaction_id = 1, user = 42\<rparr>"

text \<open>A second interaction of the same user.\<close>

definition visitor_again :: interaction where
  "visitor_again = \<lparr>interaction_id = 2, user = 42\<rparr>"

text \<open>The registration of user 42 is rate-limited until instant 300.\<close>

definition limited_world :: world where
  "limited_world = fresh_world\<lparr>cache := (\<lambda>k. if k = Register_limit 42 then Some (True, 300) else None)\<rparr>"

definition small_order :: purchase_modal where
  "small_order = \<lparr>product_code_value = ''fw'', quantity_value = ''10''\<rparr>"

definition large_order :: purchase_modal where
  "large_order = \<lparr>product_code_value = ''fw'', quantity_value = ''11''\<rparr>"

definition bad_order :: purchase_modal where
  "bad_order = \<lparr>product_code_value = ''fw'', quantity_value = ''0''\<rparr>"

subsection \<open>Reading traces\<close>

fun is_add_transaction :: "event \<Rightarrow> bool" where
  "is_add_transaction (Called (Add_transaction _ _ _) _) = True"
| "is_add_transaction _ = False"

fun is_process_purchase :: "event \<Rightarrow> bool" where
  "is_process_purchase (Called (Process_purchase _ _ _) _) = True"
| "is_process_purchase _ = False"

text \<open>The reads of the blacklist and of the cache.\<close>

fun is_gate_read :: "event \<Rightarrow> bool" where
  "is_gate_read (Called (Check_blacklist _) _) = True"
| "is_gate_read (Called (Cache_get _) _) = True"
| "is_gate_read _ = False"

text \<open>The events a handler adds to the trace of \<open>s\<close> on its way to \<open>s'\<close>.\<close>

definition new_events :: "world \<Rightarrow> world \<Rightarrow> event list" where
  "new_events s s' = drop (length (trace s)) (trace s')"

text \<open>
  The event \<open>_handle_interaction_error\<close> records in \<open>s\<close>: the error embed, through
  \<open>response.send_message\<close> or, once the interaction has a response, the followup.
\<close>

definition error_reply :: "interaction \<Rightarrow> world \<Rightarrow> message \<Rightarrow> bool \<Rightarrow> event" where
  "error_reply i s m ephemeral =
     Responded (interaction_id i)
       (if interaction_id i \<in> responded s then Followup else Send_message)
       (Some (Error_embed m)) ephemeral"

text \<open>
  \<open>extends P K s s'\<close>: from \<open>s\<close> to \<open>s'\<close> the response locks are the same, the
  cache entries of the keys in \<open>K\<close> are the same, and the trace has grown by events
  that satisfy \<open>P\<close>.
\<close>

definition extends ::
  "(event \<Rightarrow> bool) \<Rightarrow> (cache_key \<Rightarrow> bool) \<Rightarrow> world \<Rightarrow> world \<Rightarrow> bool" where
  "extends P K s s' =
     (response_locks s' = response_locks s
      \<and> (\<forall>k. K k \<longrightarrow> cache s' k = cache s k)
      \<and> (\<exists>evs. trace s' = trace s @ evs \<and> list_all P evs))"

definition io_extends :: "(event \<Rightarrow> bool) \<Rightarrow> (cache_key \<Rightarrow> bool) \<Rightarrow> 'a io \<Rightarrow> bool" where
  "io_extends P K m = (\<forall>s. extends P K s (snd (m s)))"

section \<open>Properties\<close>

subsection \<open>The quantity of a purchase\<close>


subsection \<open>The storefront message\<close>

lemma edit_Inr:
  "edit env m e v s = Inr s' \<Longrightarrow>
   current_message s' = current_message s \<and> stock_manager s' = stock_manager s
   \<and> providers s' = providers s \<and> next_message_id s' = next_message_id s
   \<and> (\<forall>k. (messages s' k = None) = (messages s k = None))"
  by (auto simp: edit_def split: option.splits if_splits)

lemma reuse_known_message_handle:
  "reuse_known_message env s = (Some m, s') \<Longrightarrow>
   current_message s' = Some m \<and> current_stock_message s' = Some m"
  by (auto simp: reuse_known_message_def current_stock_message_def Let_def
      split: option.splits sum.splits dest!: edit_Inr)

lemma find_last_valid_message_handle:
  "find_last_valid_message env s = (Some m, s') \<Longrightarrow>
   current_message s' = Some m \<and> current_stock_message s' = Some m"
  by (auto simp: find_last_valid_message_def current_stock_message_def
      set_current_stock_message_def Let_def
      split: option.splits sum.splits if_splits dest!: edit_Inr)

lemma create_new_message_handle:
  "create_new_message env s = (Some m, s') \<Longrightarrow>
   current_message s' = Some m
   \<and> (stock_manager s' \<noteq> None \<longrightarrow> current_stock_message s' = Some m)"
  by (auto simp: create_new_message_def current_stock_message_def channel_send_def
      set_current_stock_message_def Let_def
      split: option.splits sum.splits if_splits)

lemma returned_handle_is_current:
  "get_or_create_message env s = (Some m, s') \<Longrightarrow>
   current_message s' = Some m
   \<and> (stock_manager s' \<noteq> None \<longrightarrow> current_stock_message s' = Some m)"
  by (auto simp: get_or_create_message_def split: if_splits prod.splits option.splits
      dest: reuse_known_message_handle find_last_valid_message_handle
        create_new_message_handle)

lemma reuse_valid_message:
  assumes "channel_found env" and "current_stock_message s = Some m"
    and "messages s m = Some c" and "edit_error env m = None"
  shows "get_or_create_message env s =
      (Some m, s\<lparr>current_message := Some m,
                 messages := (messages s)(m := Some \<lparr>shown = shown c, has_view = True\<rparr>)\<rparr>)"
  using assms
  by (simp add: get_or_create_message_def reuse_known_message_def edit_def Let_def)

text \<open>
  C7. When the admin service answers that maintenance mode is on, the manager holds a
  message handle, that message exists in the channel and the platform takes the edit,
  \<open>force_update\<close> returns true and leaves the message with the maintenance embed and
  without the view, whatever it showed before; nothing else of the manager changes.
\<close>

theorem force_update_maintenance_degrade:
  assumes "maintenance_mode env = Inr True" and "current_message s = Some m"
    and "messages s m = Some c" and "edit_error env m = None"
  shows "force_update env s =
    (True, s\<lparr>messages :=
                (messages s)(m := Some \<lparr>shown = Maintenance_embed, has_view = False\<rparr>)\<rparr>)"
  using assms by (simp add: force_update_def edit_def)

theorem force_update_maintenance_degrade_witness:
  "maintenance_mode maintenance_answers = Inr True \<and> current_message shop_open = Some 0
   \<and> messages shop_open 0 = Some \<lparr>shown = Stock_embed, has_view = True\<rparr>
   \<and> edit_error maintenance_answers 0 = None
   \<and> fst (force_update maintenance_answers shop_open)
   \<and> messages (snd (force_update maintenance_answers shop_open)) 0
       = Some \<lparr>shown = Maintenance_embed, has_view = False\<rparr>"
proof -
  have h: "maintenance_mode maintenance_answers = Inr True"
    "current_message shop_open = Some 0"
    "messages shop_open 0 = Some \<lparr>shown = Stock_embed, has_view = True\<rparr>"
    "edit_error maintenance_answers 0 = None"
    by (simp_all add: maintenance_answers_def calm_answers_def shop_open_def)
  show ?thesis using h force_update_maintenance_degrade [OF h] by simp
qed

text \<open>
  C9, as the code has it. When the channel resolves and the stock manager knows a
  message that exists and takes the edit, two calls of \<open>get_or_create_message\<close> in a
  row both return that handle, no message is created (the channel holds the same
  messages and the next fresh handle is the same), and after each call the manager's
  \<open>current_message\<close> and the stock manager's \<open>current_stock_message\<close> are that
  handle. On every path that returns a handle, \<open>current_message\<close> is the returned
  handle, and so is \<open>current_stock_message\<close> when a stock manager is attached.
\<close>

theorem get_or_create_message_idempotent:
  assumes "channel_found env1" and "channel_found env2"
    and "current_stock_message s = Some m" and "messages s m = Some c"
    and "edit_error env1 m = None" and "edit_error env2 m = None"
  shows "(\<exists>s1 s2.
            get_or_create_message env1 s = (Some m, s1)
          \<and> get_or_create_message env2 s1 = (Some m, s2)
          \<and> current_message s1 = Some m \<and> current_stock_message s1 = Some m
          \<and> current_message s2 = Some m \<and> current_stock_message s2 = Some m
          \<and> next_message_id s2 = next_message_id s
          \<and> (\<forall>k. (messages s2 k = None) = (messages s k = None)))
       \<and> (\<forall>env t h t'. get_or_create_message env t = (Some h, t') \<longrightarrow>
             current_message t' = Some h
             \<and> (stock_manager t' \<noteq> None \<longrightarrow> current_stock_message t' = Some h))"
proof -
  let ?s1 = "s\<lparr>current_message := Some m,
                messages := (messages s)(m := Some \<lparr>shown = shown c, has_view = True\<rparr>)\<rparr>"
  let ?c1 = "\<lparr>shown = shown c, has_view = True\<rparr>"
  let ?s2 = "?s1\<lparr>current_message := Some m,
                  messages := (messages ?s1)(m := Some \<lparr>shown = shown ?c1, has_view = True\<rparr>)\<rparr>"
  have first: "get_or_create_message env1 s = (Some m, ?s1)"
    using assms by (rule_tac reuse_valid_message) simp_all
  have known: "current_stock_message ?s1 = Some m"
    using assms(3) by (cases "stock_manager s") (simp_all add: current_stock_message_def)
  have there: "messages ?s1 m = Some ?c1" by simp
  have second: "get_or_create_message env2 ?s1 = (Some m, ?s2)"
    using reuse_valid_message [OF assms(2) known there assms(6)] .
  have known2: "current_stock_message ?s2 = Some m"
    using assms(3) by (cases "stock_manager s") (simp_all add: current_stock_message_def)
  have same: "\<forall>k. (messages ?s2 k = None) = (messages s k = None)"
    using assms(4) by simp
  have twice: "\<exists>s1 s2.
            get_or_create_message env1 s = (Some m, s1)
          \<and> get_or_create_message env2 s1 = (Some m, s2)
          \<and> current_message s1 = Some m \<and> current_stock_message s1 = Some m
          \<and> current_message s2 = Some m \<and> current_stock_message s2 = Some m
          \<and> next_message_id s2 = next_message_id s
          \<and> (\<forall>k. (messages s2 k = None) = (messages s k = None))"
    apply (rule exI [of _ ?s1], rule exI [of _ ?s2])
    using first second known known2 same by simp
  have paths: "\<forall>env t h t'. get_or_create_message env t = (Some h, t') \<longrightarrow>
             current_message t' = Some h
             \<and> (stock_manager t' \<noteq> None \<longrightarrow> current_stock_message t' = Some h)"
    using returned_handle_is_current by blast
  from twice paths show ?thesis by blast
qed

theorem get_or_create_message_idempotent_witness:
  "channel_found calm_answers \<and> current_stock_message shop_open = Some 0
   \<and> messages shop_open 0 = Some \<lparr>shown = Stock_embed, has_view = True\<rparr>
   \<and> edit_error calm_answers 0 = None
   \<and> fst (get_or_create_message calm_answers shop_open) = Some 0
   \<and> fst (get_or_create_message calm_answers
            (snd (get_or_create_message calm_answers shop_open))) = Some 0
   \<and> next_message_id (snd (get_or_create_message calm_answers
            (snd (get_or_create_message calm_answers shop_open)))) = 1"
proof -
  have h: "channel_found calm_answers" "current_stock_message shop_open = Some 0"
    "messages shop_open 0 = Some \<lparr>shown = Stock_embed, has_view = True\<rparr>"
    "edit_error calm_answers 0 = None"
    by (simp_all add: calm_answers_def shop_open_def current_stock_message_def)
  have n: "next_message_id shop_open = 1" by (simp add: shop_open_def)
  from get_or_create_message_idempotent [OF h(1) h(1) h(2) h(3) h(4) h(4)]
  obtain s1 s2 where
    "get_or_create_message calm_answers shop_open = (Some 0, s1)"
    "get_or_create_message calm_answers s1 = (Some 0, s2)"
    "next_message_id s2 = next_message_id shop_open"
    by blast
  with h n show ?thesis by simp
qed

text \<open>
  C9 as stated fails on a path that returns no handle: both hold the handle of a deleted
  message, the edit raises \<open>NotFound\<close>, the stock manager finds no earlier message and
  the channel refuses the new one. The manager's \<open>current_message\<close> is then
  \<open>None\<close> while the stock manager still holds the stale handle.
\<close>

theorem get_or_create_message_inconsistent_counterexample:
  "current_message shop_stale = current_stock_message shop_stale
   \<and> fst (get_or_create_message send_refused shop_stale) = None
   \<and> current_message (snd (get_or_create_message send_refused shop_stale)) = None
   \<and> current_stock_message (snd (get_or_create_message send_refused shop_stale)) = Some 7"
  by (simp add: get_or_create_message_def reuse_known_message_def
      find_last_valid_message_def create_new_message_def channel_send_def edit_def
      current_stock_message_def send_refused_def calm_answers_def shop_stale_def Let_def)

subsection \<open>Initialization\<close>

lemma setup_dependencies_no_cog:
  "cog_stock_manager a = None \<Longrightarrow>
   setup_dependencies a s = (Inr False, s\<lparr>setup_calls := setup_calls s + 1\<rparr>)"
  by (simp add: setup_dependencies_def)

lemma initialize_loop_never_leaves:
  "\<forall>n. cog_stock_manager (answer n) = None \<Longrightarrow>
   initialization_retries s < max_initialization_retries s \<Longrightarrow>
   initialize_loop fuel answer n s = None"
  by (induction fuel arbitrary: n s) (simp_all add: setup_dependencies_no_cog)

text \<open>
  C8 fails on the code. When \<open>setup_dependencies\<close> returns false without raising,
  here because the cog is not found, the loop of \<open>initialize\<close> goes round again with
  \<open>initialization_retries\<close> unchanged: no amount of fuel makes it return.
\<close>

theorem initialize_never_returns_without_cog:
  "initialize fuel (\<lambda>n. no_cog) new_manager = None"
  unfolding initialize_def
  by (rule initialize_loop_never_leaves) (simp_all add: no_cog_def new_manager_def)

text \<open>
  The same with a stock manager that is not ready within ten seconds: after any number
  of passes the loop is still running. Only when the deadline of the attempt itself runs
  out are the retries counted: three attempts, two waits of five seconds, then false.
\<close>

lemma initialize_never_returns_while_not_ready:
  "initialize fuel (\<lambda>n. never_ready) new_manager = None"
proof -
  have "initialization_retries s < max_initialization_retries s \<Longrightarrow>
        initialize_loop fuel (\<lambda>n. never_ready) n s = None" for n s
    by (induction fuel arbitrary: n s)
      (simp_all add: setup_dependencies_def wait_for_stock_manager_ready_def
        never_ready_def Let_def)
  then show ?thesis by (simp add: initialize_def new_manager_def)
qed

lemma initialize_counts_deadlines:
  "initialize 4 (\<lambda>n. past_deadline) new_manager =
     Some (False, new_manager\<lparr>stock_manager := Some 0, initialization_retries := 3,
                               setup_calls := 3, slept := 10\<rparr>)"
  by (simp add: initialize_def numeral_nat setup_dependencies_def past_deadline_def
      new_manager_def wait_for_stock_manager_ready_def Let_def)

subsection \<open>What the steps of a handler leave alone\<close>

lemma extends_refl [simp]: "extends P K s s"
  by (simp add: extends_def)

lemma extends_trans: "extends P K s t \<Longrightarrow> extends P K t u \<Longrightarrow> extends P K s u"
  by (auto simp: extends_def)

lemma extends_weaken:
  "extends P K s t \<Longrightarrow> (\<And>ev. P ev \<Longrightarrow> Q ev) \<Longrightarrow> (\<And>k. L k \<Longrightarrow> K k) \<Longrightarrow> extends Q L s t"
  unfolding extends_def by (metis (mono_tags, lifting) list_all_iff)

lemma extends_emit: "P ev \<Longrightarrow> extends P K s (emit ev s)"
  by (simp add: extends_def emit_def)

lemma extends_new_events: "extends P K s t \<Longrightarrow> list_all P (new_events s t)"
  by (auto simp: extends_def new_events_def)

lemma io_extendsD: "io_extends P K m \<Longrightarrow> m s = (r, t) \<Longrightarrow> extends P K s t"
  by (metis io_extends_def snd_conv)

lemma io_ret: "io_extends P K (ret v)"
  by (simp add: io_extends_def ret_def)

lemma io_raise: "io_extends P K (raise e)"
  by (simp add: io_extends_def raise_def)

lemma io_called: "P (Called c b) \<Longrightarrow> io_extends P K (called c b outcome)"
  by (simp add: io_extends_def called_def extends_emit)

lemma io_called_unit: "P (Called c b) \<Longrightarrow> io_extends P K (called_unit c b err)"
  by (simp add: called_unit_def io_called)

lemma io_sleep: "P (Called (Sleep n) None) \<Longrightarrow> io_extends P K (sleep n)"
  by (simp add: io_extends_def sleep_def extends_def emit_def)

lemma io_cache_get: "P (Called (Cache_get k) None) \<Longrightarrow> io_extends P K (cache_get env k)"
  by (simp add: io_extends_def cache_get_def extends_emit split: option.split)

lemma io_cache_set:
  "P (Called (Cache_set k v ttl) None) \<Longrightarrow> \<not> K k \<Longrightarrow> io_extends P K (cache_set env k v ttl n)"
  by (auto simp: io_extends_def cache_set_def extends_def emit_def split: option.split)

lemma io_cache_delete:
  "P (Called (Cache_delete k) None) \<Longrightarrow> \<not> K k \<Longrightarrow> io_extends P K (cache_delete env k n)"
  by (auto simp: io_extends_def cache_delete_def extends_def emit_def split: option.split)

lemma io_respond:
  "P (Responded (interaction_id i) ch r eph) \<Longrightarrow> io_extends P K (respond i ch r eph err)"
  by (auto simp: io_extends_def respond_def extends_def emit_def Let_def split: option.split)

lemma io_then_do:
  assumes "io_extends P K m" and "\<And>v. io_extends P K (k v)"
  shows "io_extends P K (then_do m k)"
  unfolding io_extends_def
proof
  fix s
  obtain r s1 where ms: "m s = (r, s1)" by (cases "m s")
  have e1: "extends P K s s1" using assms(1) ms by (rule io_extendsD)
  show "extends P K s (snd (then_do m k s))"
  proof (cases r)
    case (Inl e)
    then show ?thesis using ms e1 by (simp add: then_do_def)
  next
    case (Inr v)
    have "extends P K s1 (snd (k v s1))" using assms(2) by (simp add: io_extends_def)
    then show ?thesis using Inr ms e1 by (auto simp: then_do_def intro: extends_trans)
  qed
qed

lemma io_attempt:
  assumes "io_extends P K m" and "\<And>e. io_extends P K (h e)" and "\<And>v. io_extends P K (k v)"
  shows "io_extends P K (attempt m h k)"
  unfolding io_extends_def
proof
  fix s
  obtain r s1 where ms: "m s = (r, s1)" by (cases "m s")
  have e1: "extends P K s s1" using assms(1) ms by (rule io_extendsD)
  show "extends P K s (snd (attempt m h k s))"
  proof (cases r)
    case (Inl e)
    have "extends P K s1 (snd (h e s1))" using assms(2) by (simp add: io_extends_def)
    then show ?thesis using Inl ms e1 by (auto simp: attempt_def intro: extends_trans)
  next
    case (Inr v)
    have "extends P K s1 (snd (k v s1))" using assms(3) by (simp add: io_extends_def)
    then show ?thesis using Inr ms e1 by (auto simp: attempt_def intro: extends_trans)
  qed
qed

lemma io_on_timeout: "io_extends P K m \<Longrightarrow> io_extends P K (on_timeout msg m)"
  unfolding io_extends_def on_timeout_def
  by (auto split: prod.split sum.split) (metis snd_conv)+

lemma io_swallow: "io_extends P K m \<Longrightarrow> io_extends P K (swallow m)"
  unfolding io_extends_def swallow_def
  by (auto split: prod.split sum.split) (metis snd_conv)+

lemma io_render: "io_extends P K (render env)"
  by (auto simp: render_def intro!: io_ret io_raise split: option.split)

lemma io_world: "(\<And>s. extends P K s (f s)) \<Longrightarrow> io_extends P K (\<lambda>s. (Inr v, f s))"
  by (simp add: io_extends_def)

lemmas io_intros = io_ret io_raise io_called io_called_unit io_sleep io_cache_get
  io_cache_set io_cache_delete io_respond io_then_do io_attempt io_on_timeout io_swallow
  io_render

lemma handle_interaction_error_trace:
  "trace (handle_interaction_error env i m eph s) = trace s @ [error_reply i s m eph]"
  by (simp add: handle_interaction_error_def swallow_def send_message_def followup_send_def
      respond_def emit_def error_reply_def Let_def split: option.split)

lemma handle_interaction_error_frame:
  "response_locks (handle_interaction_error env i m eph s) = response_locks s
   \<and> cache (handle_interaction_error env i m eph s) = cache s
   \<and> clock (handle_interaction_error env i m eph s) = clock s"
  by (simp add: handle_interaction_error_def swallow_def send_message_def followup_send_def
      respond_def emit_def Let_def split: option.split)

lemma extends_handle_interaction_error:
  "P (error_reply i s m eph) \<Longrightarrow> extends P K s (handle_interaction_error env i m eph s)"
  by (simp add: extends_def handle_interaction_error_trace handle_interaction_error_frame)

lemma extends_callback_except:
  "(\<And>m. P (error_reply i s m eph)) \<Longrightarrow>
   extends P K s (callback_except env i failure eph e s)"
  by (cases e) (simp_all add: callback_except_def extends_handle_interaction_error)

lemma extends_try_except:
  assumes "io_extends P K m" and "\<And>t msg. P (error_reply i t msg eph)"
  shows "extends P K s (try_except m (callback_except env i failure eph) s)"
proof -
  obtain r s1 where ms: "m s = (r, s1)" by (cases "m s")
  have e1: "extends P K s s1" using assms(1) ms by (rule io_extendsD)
  show ?thesis
  proof (cases r)
    case (Inl e)
    have "extends P K s1 (callback_except env i failure eph e s1)"
      by (rule extends_callback_except) (rule assms(2))
    then show ?thesis using Inl ms e1 by (auto simp: try_except_def intro: extends_trans)
  next
    case (Inr v)
    then show ?thesis using ms e1 by (simp add: try_except_def)
  qed
qed

text \<open>The events that are no read of the blacklist or the cache.\<close>

lemma error_reply_no_gate_read [simp]: "\<not> is_gate_read (error_reply i s m eph)"
  by (simp add: error_reply_def)

lemma io_maintenance_then_defer:
  "io_extends (\<lambda>ev. \<not> is_gate_read ev) K (maintenance_then_defer env i)"
  by (auto simp: maintenance_then_defer_def check_maintenance_def response_defer_def
      intro!: io_intros)

lemma io_balance_try: "io_extends (\<lambda>ev. \<not> is_gate_read ev) K (balance_try env i)"
  by (auto simp: balance_try_def followup_send_def intro!: io_intros split: option.split)

lemma io_world_info_try: "io_extends (\<lambda>ev. \<not> is_gate_read ev) K (world_info_try env i)"
  by (auto simp: world_info_try_def followup_send_def intro!: io_intros split: option.split)

lemma io_history_try: "io_extends (\<lambda>ev. \<not> is_gate_read ev) K (history_try env i)"
  by (auto simp: history_try_def followup_send_def Let_def intro!: io_intros
      split: option.split)

lemma io_register_try: "io_extends (\<lambda>ev. True) (\<lambda>k. False) (register_try env i)"
  by (auto simp: register_try_def check_maintenance_def send_modal_def Let_def
      intro!: io_intros split: option.split)

lemma extends_available_products:
  "extends (\<lambda>ev. True) K s (snd (available_products env ps s))"
proof (induction ps arbitrary: s)
  case Nil
  then show ?case by simp
next
  case (Cons p ps)
  let ?s1 = "emit (Called (Get_stock_count (code p)) (Some 5)) s"
  have step: "extends (\<lambda>ev. True) K s ?s1"
    by (simp add: extends_emit)
  have rest: "extends (\<lambda>ev. True) K s (snd (available_products env ps ?s1))"
    using step Cons.IH by (rule extends_trans)
  show ?case
    using rest by (auto simp: called_def split: sum.split prod.split)
qed

lemma io_available_products:
  "io_extends (\<lambda>ev. True) K
     (\<lambda>s. case available_products env ps s of (available, s') \<Rightarrow> (Inr available, s'))"
  unfolding io_extends_def
proof
  fix s
  obtain av t where a: "available_products env ps s = (av, t)"
    by (cases "available_products env ps s")
  have "extends (\<lambda>ev. True) K s t"
    using extends_available_products [of K s env ps] a by simp
  then show "extends (\<lambda>ev. True) K s
     (snd (case available_products env ps s of (available, s') \<Rightarrow> (Inr available, s')))"
    using a by simp
qed

lemma io_buy_try: "io_extends (\<lambda>ev. True) (\<lambda>k. False) (buy_try env i)"
  by (auto simp: buy_try_def check_maintenance_def send_modal_def
      intro!: io_intros io_available_products split: option.split)

lemma two_stage_extends:
  assumes "io_extends (\<lambda>ev. \<not> is_gate_read ev) K m"
  shows "extends (\<lambda>ev. \<not> is_gate_read ev) K s
     (case maintenance_then_defer env i s of
        (Inl e, s2) \<Rightarrow> callback_except env i failure False e s2
      | (Inr _, s2) \<Rightarrow> try_except m (callback_except env i failure True) s2)"
proof -
  obtain r s2 where st: "maintenance_then_defer env i s = (r, s2)"
    by (cases "maintenance_then_defer env i s")
  have e1: "extends (\<lambda>ev. \<not> is_gate_read ev) K s s2"
    using io_maintenance_then_defer st by (rule io_extendsD)
  show ?thesis
  proof (cases r)
    case (Inl e)
    have "extends (\<lambda>ev. \<not> is_gate_read ev) K s2 (callback_except env i failure False e s2)"
      by (rule extends_callback_except) simp
    then show ?thesis using Inl st e1 by (auto intro: extends_trans)
  next
    case (Inr v)
    have "extends (\<lambda>ev. \<not> is_gate_read ev) K s2
            (try_except m (callback_except env i failure True) s2)"
      using assms by (rule extends_try_except) simp
    then show ?thesis using Inr st e1 by (auto intro: extends_trans)
  qed
qed

lemma release_after_extends:
  "user i \<notin> response_locks s \<Longrightarrow>
   extends P K (s\<lparr>response_locks := insert (user i) (response_locks s)\<rparr>) t \<Longrightarrow>
   response_locks (release_response_lock i t) = response_locks s"
  by (auto simp: extends_def release_response_lock_def)

subsection \<open>The response lock of the callbacks\<close>

text \<open>
  C1. Whenever a button callback (register, balance, world info, buy, history) acquires
  the response lock of the interaction's user, the lock is free again when the callback
  is over, whatever the collaborators answered or raised on the way: the set of held
  locks is the one the callback found, so the user's lock is free and no other lock has
  been touched.
\<close>

theorem response_lock_released_on_every_path:
  assumes "fst (acquire_response_lock i s)"
  shows "user i \<notin> response_locks (register_callback env i s)
       \<and> user i \<notin> response_locks (balance_callback env i s)
       \<and> user i \<notin> response_locks (world_info_callback env i s)
       \<and> user i \<notin> response_locks (buy_callback env i s)
       \<and> user i \<notin> response_locks (history_callback env i s)
       \<and> response_locks (register_callback env i s) = response_locks s
       \<and> response_locks (balance_callback env i s) = response_locks s
       \<and> response_locks (world_info_callback env i s) = response_locks s
       \<and> response_locks (buy_callback env i s) = response_locks s
       \<and> response_locks (history_callback env i s) = response_locks s"
proof -
  from assms have free: "user i \<notin> response_locks s"
    by (simp add: acquire_response_lock_def split: if_splits)
  let ?held = "s\<lparr>response_locks := insert (user i) (response_locks s)\<rparr>"
  have acq: "acquire_response_lock i s = (True, ?held)"
    using free by (simp add: acquire_response_lock_def)
  have "extends (\<lambda>ev. True) (\<lambda>k. False) ?held
          (try_except (register_try env i)
             (callback_except env i ERROR_REGISTRATION_FAILED True) ?held)"
    by (rule extends_try_except [OF io_register_try]) simp
  then have register: "response_locks (register_callback env i s) = response_locks s"
    by (simp add: register_callback_def acq release_after_extends [OF free])
  have "extends (\<lambda>ev. True) (\<lambda>k. False) ?held
          (try_except (buy_try env i)
             (callback_except env i ERROR_TRANSACTION_FAILED True) ?held)"
    by (rule extends_try_except [OF io_buy_try]) simp
  then have buy: "response_locks (buy_callback env i s) = response_locks s"
    by (simp add: buy_callback_def acq release_after_extends [OF free])
  have balance: "response_locks (balance_callback env i s) = response_locks s"
    unfolding balance_callback_def acq
    using release_after_extends [OF free two_stage_extends [OF io_balance_try]]
    by simp
  have world_info: "response_locks (world_info_callback env i s) = response_locks s"
    unfolding world_info_callback_def acq
    using release_after_extends [OF free two_stage_extends [OF io_world_info_try]]
    by simp
  have history: "response_locks (history_callback env i s) = response_locks s"
    unfolding history_callback_def acq
    using release_after_extends [OF free two_stage_extends [OF io_history_try]]
    by simp
  from free register buy balance world_info history show ?thesis by simp
qed

theorem response_lock_released_on_every_path_witness:
  "fst (acquire_response_lock visitor fresh_world)
   \<and> response_locks (register_callback maintenance_env visitor fresh_world) = {}
   \<and> response_locks (balance_callback calm_env visitor fresh_world) = {}
   \<and> response_locks (world_info_callback calm_env visitor fresh_world) = {}
   \<and> response_locks (buy_callback blacklisting_env visitor fresh_world) = {}
   \<and> response_locks (history_callback calm_env visitor fresh_world) = {}"
proof -
  have h: "fst (acquire_response_lock visitor fresh_world)"
    by (simp add: acquire_response_lock_def fresh_world_def)
  have e: "response_locks fresh_world = {}" by (simp add: fresh_world_def)
  show ?thesis
    using h e
      response_lock_released_on_every_path [OF h, of maintenance_env]
      response_lock_released_on_every_path [OF h, of calm_env]
      response_lock_released_on_every_path [OF h, of blacklisting_env]
    by simp
qed



subsection \<open>The checks at the head of the handlers\<close>

lemma release_trace [simp]: "trace (release_response_lock i s) = trace s"
  by (simp add: release_response_lock_def)

lemma emit_fields [simp]:
  "trace (emit ev s) = trace s @ [ev]" "responded (emit ev s) = responded s"
  "cache (emit ev s) = cache s" "clock (emit ev s) = clock s"
  "response_locks (emit ev s) = response_locks s"
  by (simp_all add: emit_def)

lemma error_reply_same [simp]:
  "error_reply i (emit ev s) m eph = error_reply i s m eph"
  "error_reply i (s\<lparr>response_locks := l\<rparr>) m eph = error_reply i s m eph"
  by (simp_all add: error_reply_def)

lemma cache_lookup_same [simp]:
  "cache_lookup k (s\<lparr>response_locks := l\<rparr>) = cache_lookup k s"
  "cache_lookup k (emit ev s) = cache_lookup k s"
  by (simp_all add: cache_lookup_def emit_def split: option.split)

lemma new_events_append: "trace t = trace s @ evs \<Longrightarrow> new_events s t = evs"
  by (simp add: new_events_def)

lemma new_events_held [simp]:
  "new_events (s\<lparr>response_locks := l\<rparr>) t = new_events s t"
  "new_events s (release_response_lock i t) = new_events s t"
  by (simp_all add: new_events_def)

lemma callback_except_trace:
  "trace (callback_except env i failure eph e s) =
     trace s @ [error_reply i s (case e of ValueError m \<Rightarrow> m | _ \<Rightarrow> failure) eph]"
  by (cases e) (simp_all add: callback_except_def handle_interaction_error_trace)

lemma check_maintenance_on:
  "is_maintenance_mode env = Inr True \<Longrightarrow>
   check_maintenance env s =
     (Inl (ValueError INFO_MAINTENANCE), emit (Called Is_maintenance_mode None) s)"
  by (simp add: check_maintenance_def then_do_def called_def raise_def)

lemma check_maintenance_off:
  "is_maintenance_mode env = Inr False \<Longrightarrow>
   check_maintenance env s = (Inr (), emit (Called Is_maintenance_mode None) s)"
  by (simp add: check_maintenance_def then_do_def called_def ret_def)

lemma cache_get_ok:
  "cache_get_error env k = None \<Longrightarrow>
   cache_get env k s = (Inr (cache_lookup k s), emit (Called (Cache_get k) None) s)"
  by (simp add: cache_get_def)

lemma cache_get_raises:
  "cache_get_error env k = Some e \<Longrightarrow>
   cache_get env k s = (Inl e, emit (Called (Cache_get k) None) s)"
  by (simp add: cache_get_def)

lemma register_under_maintenance:
  assumes "is_maintenance_mode env = Inr True" and "user i \<notin> response_locks s"
  shows "trace (register_callback env i s) =
     trace s @ [Called Is_maintenance_mode None, error_reply i s INFO_MAINTENANCE True]"
  using assms
  by (simp add: register_callback_def acquire_response_lock_def try_except_def
      register_try_def then_do_def check_maintenance_on callback_except_trace)

lemma two_stage_under_maintenance:
  assumes "is_maintenance_mode env = Inr True" and "user i \<notin> response_locks s"
  shows "trace (balance_callback env i s) =
     trace s @ [Called Is_maintenance_mode None, error_reply i s INFO_MAINTENANCE False]"
   and "trace (world_info_callback env i s) =
     trace s @ [Called Is_maintenance_mode None, error_reply i s INFO_MAINTENANCE False]"
   and "trace (history_callback env i s) =
     trace s @ [Called Is_maintenance_mode None, error_reply i s INFO_MAINTENANCE False]"
  using assms
  by (simp_all add: balance_callback_def world_info_callback_def history_callback_def
      acquire_response_lock_def maintenance_then_defer_def
      then_do_def check_maintenance_on callback_except_trace)

lemma buy_cache_raises:
  assumes "user i \<notin> response_locks s"
    and "cache_get_error env (Buy_button (user i)) = Some e"
  shows "trace (buy_callback env i s) =
     trace s @ [Called (Cache_get (Buy_button (user i))) None,
                error_reply i s (case e of ValueError m \<Rightarrow> m | _ \<Rightarrow> ERROR_TRANSACTION_FAILED)
                  True]"
  using assms
  by (simp add: buy_callback_def acquire_response_lock_def try_except_def
      buy_try_def then_do_def cache_get_raises callback_except_trace)

lemma buy_rate_limited:
  assumes "user i \<notin> response_locks s"
    and "cache_get_error env (Buy_button (user i)) = None"
    and "cache_lookup (Buy_button (user i)) s = Some True"
  shows "trace (buy_callback env i s) =
     trace s @ [Called (Cache_get (Buy_button (user i))) None,
                error_reply i s ERROR_RATE_LIMIT True]"
  using assms
  by (simp add: buy_callback_def acquire_response_lock_def try_except_def
      buy_try_def then_do_def cache_get_ok raise_def callback_except_trace)

lemma buy_system_busy:
  assumes "user i \<notin> response_locks s"
    and "cache_get_error env (Buy_button (user i)) = None"
    and "cache_lookup (Buy_button (user i)) s \<noteq> Some True" and "queue_qsize env > 50"
  shows "trace (buy_callback env i s) =
     trace s @ [Called (Cache_get (Buy_button (user i))) None, Called Queue_qsize None,
                error_reply i s ERROR_SYSTEM_BUSY True]"
  using assms
  by (simp add: buy_callback_def acquire_response_lock_def try_except_def
      buy_try_def then_do_def cache_get_ok raise_def called_def callback_except_trace)

lemma buy_under_maintenance:
  assumes "user i \<notin> response_locks s"
    and "cache_get_error env (Buy_button (user i)) = None"
    and "cache_lookup (Buy_button (user i)) s \<noteq> Some True" and "queue_qsize env \<le> 50"
    and "is_maintenance_mode env = Inr True"
  shows "trace (buy_callback env i s) =
     trace s @ [Called (Cache_get (Buy_button (user i))) None, Called Queue_qsize None,
                Called Is_maintenance_mode None, error_reply i s INFO_MAINTENANCE True]"
  using assms
  by (simp add: buy_callback_def acquire_response_lock_def try_except_def
      buy_try_def then_do_def cache_get_ok raise_def called_def check_maintenance_on
      callback_except_trace)

lemma buy_blacklisted:
  assumes "user i \<notin> response_locks s"
    and "cache_get_error env (Buy_button (user i)) = None"
    and "cache_lookup (Buy_button (user i)) s \<noteq> Some True" and "queue_qsize env \<le> 50"
    and "is_maintenance_mode env = Inr False"
    and "check_blacklist env (user i) = Inr (Some r)" and "success r" and "data r"
  shows "trace (buy_callback env i s) =
     trace s @ [Called (Cache_get (Buy_button (user i))) None, Called Queue_qsize None,
                Called Is_maintenance_mode None, Called (Check_blacklist (user i)) None,
                error_reply i s ERROR_USER_BLACKLISTED True]"
  using assms
  by (simp add: buy_callback_def acquire_response_lock_def try_except_def
      buy_try_def then_do_def cache_get_ok raise_def called_def check_maintenance_off
      callback_except_trace)

lemma register_rate_limited:
  assumes "user i \<notin> response_locks s" and "is_maintenance_mode env = Inr False"
    and "cache_get_error env (Register_limit (user i)) = None"
    and "cache_lookup (Register_limit (user i)) s = Some True"
  shows "trace (register_callback env i s) =
     trace s @ [Called Is_maintenance_mode None,
                Called (Cache_get (Register_limit (user i))) None,
                error_reply i s ERROR_RATE_LIMIT True]"
  using assms
  by (simp add: register_callback_def acquire_response_lock_def try_except_def
      register_try_def then_do_def cache_get_ok raise_def called_def check_maintenance_off
      callback_except_trace)

lemma register_blacklisted:
  assumes "user i \<notin> response_locks s" and "is_maintenance_mode env = Inr False"
    and "cache_get_error env (Register_limit (user i)) = None"
    and "cache_lookup (Register_limit (user i)) s \<noteq> Some True"
    and "check_blacklist env (user i) = Inr (Some r)" and "success r" and "data r"
  shows "trace (register_callback env i s) =
     trace s @ [Called Is_maintenance_mode None,
                Called (Cache_get (Register_limit (user i))) None,
                Called (Check_blacklist (user i)) None,
                error_reply i s ERROR_USER_BLACKLISTED True]"
  using assms
  by (simp add: register_callback_def acquire_response_lock_def try_except_def
      register_try_def then_do_def cache_get_ok raise_def called_def check_maintenance_off
      callback_except_trace)

lemma error_reply_no_service [simp]: "\<not> is_service_event (error_reply i s m eph)"
  by (simp add: error_reply_def)

lemma buy_under_maintenance_no_service:
  assumes "user i \<notin> response_locks s" and "is_maintenance_mode env = Inr True"
  shows "\<not> list_ex is_service_event (new_events s (buy_callback env i s))"
proof (cases "cache_get_error env (Buy_button (user i))")
  case (Some e)
  show ?thesis
    by (simp add: new_events_append [OF buy_cache_raises [OF assms(1) Some]])
next
  case None
  show ?thesis
  proof (cases "cache_lookup (Buy_button (user i)) s = Some True")
    case True
    show ?thesis
      by (simp add: new_events_append [OF buy_rate_limited [OF assms(1) None True]])
  next
    case False
    show ?thesis
    proof (cases "queue_qsize env > 50")
      case True
      show ?thesis
        by (simp add: new_events_append [OF buy_system_busy [OF assms(1) None False True]])
    next
      case small: False
      then have le: "queue_qsize env \<le> 50" by simp
      show ?thesis
        by (simp add: new_events_append
            [OF buy_under_maintenance [OF assms(1) None False le assms(2)]])
    qed
  qed
qed

lemma two_stage_no_gate_read:
  assumes "user i \<notin> response_locks s"
  shows "list_all (\<lambda>ev. \<not> is_gate_read ev) (new_events s (balance_callback env i s))"
    and "list_all (\<lambda>ev. \<not> is_gate_read ev) (new_events s (world_info_callback env i s))"
    and "list_all (\<lambda>ev. \<not> is_gate_read ev) (new_events s (history_callback env i s))"
proof -
  let ?h = "s\<lparr>response_locks := insert (user i) (response_locks s)\<rparr>"
  have acq: "acquire_response_lock i s = (True, ?h)"
    using assms by (simp add: acquire_response_lock_def)
  have "list_all (\<lambda>ev. \<not> is_gate_read ev)
     (new_events ?h
       (case maintenance_then_defer env i ?h of
          (Inl e, s2) \<Rightarrow> callback_except env i ERROR_BALANCE_FAILED False e s2
        | (Inr _, s2) \<Rightarrow>
            try_except (balance_try env i)
              (callback_except env i ERROR_BALANCE_FAILED True) s2))"
    by (rule extends_new_events [OF two_stage_extends [OF io_balance_try]])
  then show "list_all (\<lambda>ev. \<not> is_gate_read ev) (new_events s (balance_callback env i s))"
    by (simp add: balance_callback_def acq)
  have "list_all (\<lambda>ev. \<not> is_gate_read ev)
     (new_events ?h
       (case maintenance_then_defer env i ?h of
          (Inl e, s2) \<Rightarrow> callback_except env i ERROR_WORLD_INFO_FAILED False e s2
        | (Inr _, s2) \<Rightarrow>
            try_except (world_info_try env i)
              (callback_except env i ERROR_WORLD_INFO_FAILED True) s2))"
    by (rule extends_new_events [OF two_stage_extends [OF io_world_info_try]])
  then show "list_all (\<lambda>ev. \<not> is_gate_read ev)
      (new_events s (world_info_callback env i s))"
    by (simp add: world_info_callback_def acq)
  have "list_all (\<lambda>ev. \<not> is_gate_read ev)
     (new_events ?h
       (case maintenance_then_defer env i ?h of
          (Inl e, s2) \<Rightarrow> callback_except env i ERROR_HISTORY_FAILED False e s2
        | (Inr _, s2) \<Rightarrow>
            try_except (history_try env i)
              (callback_except env i ERROR_HISTORY_FAILED True) s2))"
    by (rule extends_new_events [OF two_stage_extends [OF io_history_try]])
  then show "list_all (\<lambda>ev. \<not> is_gate_read ev) (new_events s (history_callback env i s))"
    by (simp add: history_callback_def acq)
qed

text \<open>
  C3, as the code has it. With maintenance mode on, a register, balance, world-info or
  history callback that holds the response lock asks the admin service first and answers
  with the maintenance message at once: its only two events are that question and the
  error reply. A buy callback in maintenance mode calls no balance, product or
  transaction service either; it reads its rate-limit flag and the queue size before it
  asks the admin service, and answers with the maintenance message when the flag is not
  set and the queue holds at most 50 entries. (The submission of the purchase modal is
  left out: it never asks for the maintenance mode.)
\<close>

theorem maintenance_short_circuits_callbacks:
  assumes "is_maintenance_mode env = Inr True" and "fst (acquire_response_lock i s)"
  shows "new_events s (register_callback env i s) =
           [Called Is_maintenance_mode None, error_reply i s INFO_MAINTENANCE True]
       \<and> new_events s (balance_callback env i s) =
           [Called Is_maintenance_mode None, error_reply i s INFO_MAINTENANCE False]
       \<and> new_events s (world_info_callback env i s) =
           [Called Is_maintenance_mode None, error_reply i s INFO_MAINTENANCE False]
       \<and> new_events s (history_callback env i s) =
           [Called Is_maintenance_mode None, error_reply i s INFO_MAINTENANCE False]
       \<and> \<not> list_ex is_service_event (new_events s (buy_callback env i s))
       \<and> (cache_get_error env (Buy_button (user i)) = None
            \<and> cache_lookup (Buy_button (user i)) s \<noteq> Some True
            \<and> queue_qsize env \<le> 50
          \<longrightarrow> new_events s (buy_callback env i s) =
                [Called (Cache_get (Buy_button (user i))) None, Called Queue_qsize None,
                 Called Is_maintenance_mode None, error_reply i s INFO_MAINTENANCE True])"
proof -
  from assms(2) have free: "user i \<notin> response_locks s"
    by (simp add: acquire_response_lock_def split: if_splits)
  note m = assms(1)
  show ?thesis
    using new_events_append [OF register_under_maintenance [OF m free]]
      new_events_append [OF two_stage_under_maintenance(1) [OF m free]]
      new_events_append [OF two_stage_under_maintenance(2) [OF m free]]
      new_events_append [OF two_stage_under_maintenance(3) [OF m free]]
      buy_under_maintenance_no_service [OF free m]
      new_events_append [OF buy_under_maintenance [OF free _ _ _ m]]
    by simp
qed

theorem maintenance_short_circuits_callbacks_witness:
  "is_maintenance_mode maintenance_env = Inr True
   \<and> fst (acquire_response_lock visitor fresh_world)
   \<and> new_events fresh_world (register_callback maintenance_env visitor fresh_world) =
       [Called Is_maintenance_mode None,
        Responded 1 Send_message (Some (Error_embed INFO_MAINTENANCE)) True]
   \<and> new_events fresh_world (history_callback maintenance_env visitor fresh_world) =
       [Called Is_maintenance_mode None,
        Responded 1 Send_message (Some (Error_embed INFO_MAINTENANCE)) False]
   \<and> new_events fresh_world (buy_callback maintenance_env visitor fresh_world) =
       [Called (Cache_get (Buy_button 42)) None, Called Queue_qsize None,
        Called Is_maintenance_mode None,
        Responded 1 Send_message (Some (Error_embed INFO_MAINTENANCE)) True]"
proof -
  have h: "is_maintenance_mode maintenance_env = Inr True"
    "fst (acquire_response_lock visitor fresh_world)"
    by (simp_all add: maintenance_env_def calm_env_def acquire_response_lock_def
        fresh_world_def)
  have buy: "cache_get_error maintenance_env (Buy_button (user visitor)) = None"
    "cache_lookup (Buy_button (user visitor)) fresh_world \<noteq> Some True"
    "queue_qsize maintenance_env \<le> 50" "user visitor = 42"
    by (simp_all add: maintenance_env_def calm_env_def cache_lookup_def fresh_world_def
        visitor_def)
  have reply: "error_reply visitor fresh_world m eph =
      Responded 1 Send_message (Some (Error_embed m)) eph" for m eph
    by (simp add: error_reply_def visitor_def fresh_world_def)
  show ?thesis
    using h buy maintenance_short_circuits_callbacks [OF h]
    by (simp add: reply)
qed

text \<open>
  C3 as stated fails for the purchase modal: \<open>on_submit\<close> never asks the admin
  service. With maintenance mode on, a submission of ten items goes through the GrowID
  lookup and \<open>process_purchase\<close> and is answered with the success embed.
\<close>

theorem purchase_modal_ignores_maintenance_counterexample:
  "is_maintenance_mode maintenance_env = Inr True
   \<and> trace (snd (on_submit maintenance_env small_order visitor fresh_world)) =
     [Called (Cache_get (Purchase_limit 42)) None,
      Responded 1 Defer None True,
      Called (Cache_set (Purchase_limit 42) True 300) None,
      Called (Get_growid 42) (Some 10),
      Called (Process_purchase 42 ''FW'' 10) (Some 30),
      Called (Cache_delete (Balance_key ''PLAYER_ONE'')) None,
      Called (Cache_delete (Stock_key ''FW'')) None,
      Called (Cache_delete (History_key 42)) None,
      Responded 1 Followup (Some (Purchase_success_embed 10)) True]"
  by (simp add: on_submit_def attempt_def on_submit_rate_limit_def then_do_def cache_get_def
      cache_lookup_def emit_def raise_def ret_def response_defer_def respond_def Let_def
      on_submit_checks_def set_with_retry.simps cache_set_def validate_quantity_def
      py_int_def strip_def is_space_def py_digits_def digit_val_def on_timeout_def
      called_def normalize_code_def upper_char_def followup_send_def
      on_submit_purchase_def on_submit_finish_def render_def invalidate_def
      delete_with_retry.simps cache_delete_def balance_key_def
      calm_env_def maintenance_env_def fresh_world_def visitor_def small_order_def ok_def)

text \<open>
  C4, as the code has it. The order of the checks differs from handler to handler.
  \<open>register_callback\<close>: maintenance mode, then the rate-limit flag, then the
  blacklist. \<open>buy_callback\<close>: the rate-limit flag, then the queue size, then
  maintenance mode, then the blacklist. The balance, world-info and history callbacks
  check maintenance mode only: they read neither the blacklist nor the cache. Each
  failing check ends the handler with its message before the next check is made.
\<close>

theorem precondition_checks_in_code_order:
  assumes "fst (acquire_response_lock i s)"
  shows "(is_maintenance_mode env = Inr True \<longrightarrow>
            new_events s (register_callback env i s) =
              [Called Is_maintenance_mode None, error_reply i s INFO_MAINTENANCE True])
       \<and> (is_maintenance_mode env = Inr False
            \<and> cache_get_error env (Register_limit (user i)) = None
            \<and> cache_lookup (Register_limit (user i)) s = Some True \<longrightarrow>
            new_events s (register_callback env i s) =
              [Called Is_maintenance_mode None,
               Called (Cache_get (Register_limit (user i))) None,
               error_reply i s ERROR_RATE_LIMIT True])
       \<and> (is_maintenance_mode env = Inr False
            \<and> cache_get_error env (Register_limit (user i)) = None
            \<and> cache_lookup (Register_limit (user i)) s \<noteq> Some True
            \<and> check_blacklist env (user i) = Inr (Some r) \<and> success r \<and> data r \<longrightarrow>
            new_events s (register_callback env i s) =
              [Called Is_maintenance_mode None,
               Called (Cache_get (Register_limit (user i))) None,
               Called (Check_blacklist (user i)) None,
               error_reply i s ERROR_USER_BLACKLISTED True])
       \<and> (cache_get_error env (Buy_button (user i)) = None
            \<and> cache_lookup (Buy_button (user i)) s = Some True \<longrightarrow>
            new_events s (buy_callback env i s) =
              [Called (Cache_get (Buy_button (user i))) None,
               error_reply i s ERROR_RATE_LIMIT True])
       \<and> (cache_get_error env (Buy_button (user i)) = None
            \<and> cache_lookup (Buy_button (user i)) s \<noteq> Some True
            \<and> queue_qsize env > 50 \<longrightarrow>
            new_events s (buy_callback env i s) =
              [Called (Cache_get (Buy_button (user i))) None, Called Queue_qsize None,
               error_reply i s ERROR_SYSTEM_BUSY True])
       \<and> (cache_get_error env (Buy_button (user i)) = None
            \<and> cache_lookup (Buy_button (user i)) s \<noteq> Some True
            \<and> queue_qsize env \<le> 50 \<and> is_maintenance_mode env = Inr True \<longrightarrow>
            new_events s (buy_callback env i s) =
              [Called (Cache_get (Buy_button (user i))) None, Called Queue_qsize None,
               Called Is_maintenance_mode None, error_reply i s INFO_MAINTENANCE True])
       \<and> (cache_get_error env (Buy_button (user i)) = None
            \<and> cache_lookup (Buy_button (user i)) s \<noteq> Some True
            \<and> queue_qsize env \<le> 50 \<and> is_maintenance_mode env = Inr False
            \<and> check_blacklist env (user i) = Inr (Some r) \<and> success r \<and> data r \<longrightarrow>
            new_events s (buy_callback env i s) =
              [Called (Cache_get (Buy_button (user i))) None, Called Queue_qsize None,
               Called Is_maintenance_mode None, Called (Check_blacklist (user i)) None,
               error_reply i s ERROR_USER_BLACKLISTED True])
       \<and> (is_maintenance_mode env = Inr True \<longrightarrow>
            new_events s (balance_callback env i s) =
              [Called Is_maintenance_mode None, error_reply i s INFO_MAINTENANCE False]
          \<and> new_events s (world_info_callback env i s) =
              [Called Is_maintenance_mode None, error_reply i s INFO_MAINTENANCE False]
          \<and> new_events s (history_callback env i s) =
              [Called Is_maintenance_mode None, error_reply i s INFO_MAINTENANCE False])
       \<and> list_all (\<lambda>ev. \<not> is_gate_read ev) (new_events s (balance_callback env i s))
       \<and> list_all (\<lambda>ev. \<not> is_gate_read ev) (new_events s (world_info_callback env i s))
       \<and> list_all (\<lambda>ev. \<not> is_gate_read ev) (new_events s (history_callback env i s))"
proof -
  from assms have free: "user i \<notin> response_locks s"
    by (simp add: acquire_response_lock_def split: if_splits)
  show ?thesis
    using new_events_append [OF register_under_maintenance [OF _ free]]
      new_events_append [OF register_rate_limited [OF free]]
      new_events_append [OF register_blacklisted [OF free]]
      new_events_append [OF buy_rate_limited [OF free]]
      new_events_append [OF buy_system_busy [OF free]]
      new_events_append [OF buy_under_maintenance [OF free]]
      new_events_append [OF buy_blacklisted [OF free]]
      new_events_append [OF two_stage_under_maintenance(1) [OF _ free]]
      new_events_append [OF two_stage_under_maintenance(2) [OF _ free]]
      new_events_append [OF two_stage_under_maintenance(3) [OF _ free]]
      two_stage_no_gate_read [OF free]
    by simp
qed

theorem precondition_checks_in_code_order_witness:
  "fst (acquire_response_lock visitor limited_world)
   \<and> fst (acquire_response_lock visitor fresh_world)
   \<and> new_events limited_world (register_callback blacklisting_env visitor limited_world) =
       [Called Is_maintenance_mode None, Called (Cache_get (Register_limit 42)) None,
        Responded 1 Send_message (Some (Error_embed ERROR_RATE_LIMIT)) True]
   \<and> new_events fresh_world (register_callback blacklisting_env visitor fresh_world) =
       [Called Is_maintenance_mode None, Called (Cache_get (Register_limit 42)) None,
        Called (Check_blacklist 42) None,
        Responded 1 Send_message (Some (Error_embed ERROR_USER_BLACKLISTED)) True]
   \<and> new_events fresh_world (buy_callback blacklisting_env visitor fresh_world) =
       [Called (Cache_get (Buy_button 42)) None, Called Queue_qsize None,
        Called Is_maintenance_mode None, Called (Check_blacklist 42) None,
        Responded 1 Send_message (Some (Error_embed ERROR_USER_BLACKLISTED)) True]"
proof -
  have h: "fst (acquire_response_lock visitor limited_world)"
    "fst (acquire_response_lock visitor fresh_world)"
    by (simp_all add: acquire_response_lock_def limited_world_def fresh_world_def)
  have answers: "is_maintenance_mode blacklisting_env = Inr False"
    "cache_get_error blacklisting_env (Register_limit (user visitor)) = None"
    "cache_get_error blacklisting_env (Buy_button (user visitor)) = None"
    "check_blacklist blacklisting_env (user visitor) = Inr (Some (ok True))"
    "success (ok True)" "data (ok True)" "queue_qsize blacklisting_env \<le> 50"
    "user visitor = 42"
    by (simp_all add: blacklisting_env_def calm_env_def ok_def visitor_def)
  have flags: "cache_lookup (Register_limit (user visitor)) limited_world = Some True"
    "cache_lookup (Register_limit (user visitor)) fresh_world \<noteq> Some True"
    "cache_lookup (Buy_button (user visitor)) fresh_world \<noteq> Some True"
    by (simp_all add: cache_lookup_def limited_world_def fresh_world_def visitor_def)
  have reply: "error_reply visitor limited_world m eph =
      Responded 1 Send_message (Some (Error_embed m)) eph"
    "error_reply visitor fresh_world m eph =
      Responded 1 Send_message (Some (Error_embed m)) eph" for m eph
    by (simp_all add: error_reply_def visitor_def fresh_world_def limited_world_def)
  show ?thesis
    using h answers flags
      precondition_checks_in_code_order [OF h(1), of blacklisting_env "ok True"]
      precondition_checks_in_code_order [OF h(2), of blacklisting_env "ok True"]
    by (simp add: reply)
qed

text \<open>
  C4 as stated fails: for a blacklisted user whose registration is rate-limited,
  \<open>register_callback\<close> answers with the rate-limit message and never asks for the
  blacklist, so the rate-limit flag is read before the blacklist.
\<close>

theorem register_reads_rate_limit_before_blacklist_counterexample:
  "check_blacklist blacklisting_env (user visitor) = Inr (Some (ok True))
   \<and> success (ok True :: bool response) \<and> data (ok True)
   \<and> trace (register_callback blacklisting_env visitor limited_world) =
      [Called Is_maintenance_mode None, Called (Cache_get (Register_limit 42)) None,
       Responded 1 Send_message (Some (Error_embed ERROR_RATE_LIMIT)) True]"
  by (simp add: register_callback_def acquire_response_lock_def try_except_def
      register_try_def check_maintenance_def callback_except_def handle_interaction_error_def
      release_response_lock_def then_do_def called_def raise_def ret_def cache_get_def
      cache_lookup_def swallow_def send_message_def respond_def emit_def Let_def
      blacklisting_env_def calm_env_def fresh_world_def limited_world_def visitor_def ok_def)

subsection \<open>The steps of \<open>on_submit\<close>\<close>

text \<open>The retry loops, unrolled: three attempts at most, a second of sleep after each
  failure.\<close>

lemma set_with_retry_unrolled:
  "set_with_retry env k ttl 0 s =
    (let ev = Called (Cache_set k True ttl) None; sl = Called (Sleep 1) None in
     case cache_set_error env k 0 of
       None \<Rightarrow> s\<lparr>cache := (cache s)(k := Some (True, clock s + ttl)), trace := trace s @ [ev]\<rparr>
     | Some _ \<Rightarrow>
      (case cache_set_error env k 1 of
         None \<Rightarrow> s\<lparr>cache := (cache s)(k := Some (True, clock s + 1 + ttl)),
                   clock := clock s + 1, trace := trace s @ [ev, sl, ev]\<rparr>
       | Some _ \<Rightarrow>
        (case cache_set_error env k 2 of
           None \<Rightarrow> s\<lparr>cache := (cache s)(k := Some (True, clock s + 2 + ttl)),
                     clock := clock s + 2, trace := trace s @ [ev, sl, ev, sl, ev]\<rparr>
         | Some _ \<Rightarrow> s\<lparr>clock := clock s + 3,
                        trace := trace s @ [ev, sl, ev, sl, ev, sl]\<rparr>)))"
  by (simp add: set_with_retry.simps cache_set_def sleep_def emit_def Let_def
      numeral_2_eq_2 split: option.splits)

lemma delete_with_retry_unrolled:
  "delete_with_retry env k 0 s =
    (let ev = Called (Cache_delete k) None; sl = Called (Sleep 1) None in
     case cache_delete_error env k 0 of
       None \<Rightarrow> s\<lparr>cache := (cache s)(k := None), trace := trace s @ [ev]\<rparr>
     | Some _ \<Rightarrow>
      (case cache_delete_error env k 1 of
         None \<Rightarrow> s\<lparr>cache := (cache s)(k := None),
                   clock := clock s + 1, trace := trace s @ [ev, sl, ev]\<rparr>
       | Some _ \<Rightarrow>
        (case cache_delete_error env k 2 of
           None \<Rightarrow> s\<lparr>cache := (cache s)(k := None),
                     clock := clock s + 2, trace := trace s @ [ev, sl, ev, sl, ev]\<rparr>
         | Some _ \<Rightarrow> s\<lparr>clock := clock s + 3,
                        trace := trace s @ [ev, sl, ev, sl, ev, sl]\<rparr>)))"
  by (simp add: delete_with_retry.simps cache_delete_def sleep_def emit_def Let_def
      numeral_2_eq_2 split: option.splits)

declare set_with_retry.simps [simp del] delete_with_retry.simps [simp del]

lemma extends_set_with_retry:
  assumes "P (Called (Cache_set k True ttl) None)" and "P (Called (Sleep 1) None)"
    and "\<not> K k"
  shows "extends P K s (set_with_retry env k ttl 0 s)"
  using assms
  by (auto simp: set_with_retry_unrolled extends_def Let_def split: option.split)

lemma extends_delete_with_retry:
  assumes "P (Called (Cache_delete k) None)" and "P (Called (Sleep 1) None)"
    and "\<not> K k"
  shows "extends P K s (delete_with_retry env k 0 s)"
  using assms
  by (auto simp: delete_with_retry_unrolled extends_def Let_def split: option.split)

lemma extends_invalidate:
  assumes "\<And>k. k \<in> set ks \<Longrightarrow> P (Called (Cache_delete k) None) \<and> \<not> K k"
    and "P (Called (Sleep 1) None)"
  shows "extends P K s (invalidate env ks s)"
  using assms(1)
proof (induction ks arbitrary: s)
  case Nil
  then show ?case by (simp add: invalidate_def)
next
  case (Cons k ks)
  have first: "extends P K s (delete_with_retry env k 0 s)"
    using Cons.prems [of k] assms(2) by (simp add: extends_delete_with_retry)
  have rest: "extends P K (delete_with_retry env k 0 s)
                (invalidate env ks (delete_with_retry env k 0 s))"
    using Cons.prems by (intro Cons.IH) simp
  show ?case
    using extends_trans [OF first rest] by (simp add: invalidate_def)
qed

text \<open>
  The events \<open>on_submit\<close> can add once the purchase is routed: answers to the
  interaction, cache deletions with their sleeps, and the recovery inquiry.
\<close>

lemma io_send_error:
  "(\<And>ch r eph. P (Responded (interaction_id i) ch r eph)) \<Longrightarrow>
   io_extends P K (send_error env i response_sent m)"
  by (simp add: send_error_def followup_send_def send_message_def io_respond)

lemma io_recover:
  "P (Called Recover_failed_transaction (Some 10)) \<Longrightarrow> io_extends P K (recover env r)"
  by (auto simp: recover_def intro!: io_intros split: option.split)

lemma io_on_submit_except:
  assumes "\<And>ch r eph. P (Responded (interaction_id i) ch r eph)"
    and "P (Called Recover_failed_transaction (Some 10))"
  shows "io_extends P K (on_submit_except env i response_sent purchase_response e)"
  using assms
  by (cases e)
     (auto simp: on_submit_except_def intro!: io_intros io_send_error io_recover
       split: option.split)

lemma io_on_submit_finish:
  assumes "\<And>ch r eph. P (Responded (interaction_id i) ch r eph)"
    and "\<And>k. P (Called (Cache_delete k) None)" and "P (Called (Sleep 1) None)"
    and "\<not> K (balance_key growid)" and "\<not> K (Stock_key product_code)"
    and "\<not> K (History_key (user i))"
  shows "io_extends P K (on_submit_finish env i product_code quantity growid r)"
  using assms
  by (auto simp: on_submit_finish_def followup_send_def
      intro!: io_intros io_world extends_invalidate)

lemma io_on_submit_rate_limit:
  assumes "P (Called (Cache_get (Purchase_limit (user i))) None)"
    and "\<And>ch r eph. P (Responded (interaction_id i) ch r eph)"
  shows "io_extends P K (on_submit_rate_limit env i)"
  using assms
  by (auto simp: on_submit_rate_limit_def response_defer_def intro!: io_intros)

lemma io_after_write:
  assumes "P (Called (Get_growid (user i)) (Some 10))"
  shows "io_extends P K
     (then_do (\<lambda>s. (validate_quantity (quantity_value modal), s))
        (\<lambda>quantity.
           then_do
             (on_timeout ERROR_TIMEOUT
                (then_do (called (Get_growid (user i)) (Some 10) (get_growid env (user i)))
                   (\<lambda>growid_response.
                      if \<not> success growid_response
                      then raise (ValueError (Backend_text (error growid_response)))
                      else ret (data growid_response))))
             (\<lambda>growid. ret (normalize_code (product_code_value modal), quantity, growid))))"
  using assms
  by (auto simp: io_extends_def [of _ _ "\<lambda>s. (validate_quantity (quantity_value modal), s)"]
      intro!: io_intros)

lemma on_submit_checks_split:
  "on_submit_checks env modal i s =
     then_do (\<lambda>s. (validate_quantity (quantity_value modal), s))
        (\<lambda>quantity.
           then_do
             (on_timeout ERROR_TIMEOUT
                (then_do (called (Get_growid (user i)) (Some 10) (get_growid env (user i)))
                   (\<lambda>growid_response.
                      if \<not> success growid_response
                      then raise (ValueError (Backend_text (error growid_response)))
                      else ret (data growid_response))))
             (\<lambda>growid. ret (normalize_code (product_code_value modal), quantity, growid)))
       (set_with_retry env (Purchase_limit (user i)) 300 0 s)"
  by (simp add: on_submit_checks_def then_do_def Let_def)

lemma io_on_submit_checks:
  assumes "P (Called (Get_growid (user i)) (Some 10))"
    and "P (Called (Cache_set (Purchase_limit (user i)) True 300) None)"
    and "P (Called (Sleep 1) None)" and "\<not> K (Purchase_limit (user i))"
  shows "io_extends P K (on_submit_checks env modal i)"
  unfolding io_extends_def
proof
  fix s
  let ?w = "set_with_retry env (Purchase_limit (user i)) 300 0 s"
  have a: "extends P K s ?w"
    using assms by (simp add: extends_set_with_retry)
  have b: "extends P K ?w (snd (on_submit_checks env modal i s))"
    unfolding on_submit_checks_split
    using assms(1) io_after_write [where P = P and K = K and i = i and modal = modal
        and env = env]
    by (simp add: io_extends_def)
  show "extends P K s (snd (on_submit_checks env modal i s))"
    using a b by (rule extends_trans)
qed

subsection \<open>The routing of a purchase\<close>

lemma on_submit_routed:
  assumes "on_submit_rate_limit env i s = (Inr (), s1)"
    and "on_submit_checks env modal i s1 = (Inr (product_code, quantity, growid), s2)"
  shows "on_submit env modal i s =
    (if quantity > 10 then
       attempt (on_submit_queued env i product_code quantity)
         (on_submit_except env i True None) ret s2
     else
       attempt (on_submit_purchase env i product_code quantity)
         (on_submit_except env i True None)
         (\<lambda>purchase_response.
            attempt (on_submit_finish env i product_code quantity growid purchase_response)
              (on_submit_except env i True (Some purchase_response)) ret) s2)"
  using assms by (simp add: on_submit_def attempt_def)

lemma on_submit_queued_step:
  "attempt (on_submit_queued env i product_code quantity) h ret s2 =
     (case add_transaction env of
        None \<Rightarrow> attempt (followup_send env i Processing_embed True) h ret
                 (emit (Called (Add_transaction (user i) product_code quantity) None) s2)
      | Some e \<Rightarrow> h e (emit (Called (Add_transaction (user i) product_code quantity) None) s2))"
  by (simp add: on_submit_queued_def attempt_def then_do_def called_unit_def called_def
      split: option.split)

lemma on_submit_purchase_step:
  "attempt (on_submit_purchase env i product_code quantity) h k s2 =
     (case process_purchase env of
        Inl e \<Rightarrow> h (if e = TimeoutError then ValueError ERROR_TRANSACTION_TIMEOUT else e)
                  (emit (Called (Process_purchase (user i) product_code quantity) (Some 30)) s2)
      | Inr r \<Rightarrow> k r
                  (emit (Called (Process_purchase (user i) product_code quantity) (Some 30)) s2))"
  by (simp add: on_submit_purchase_def attempt_def on_timeout_def called_def
      split: sum.split)

lemma followup_send_ok:
  "followup_error env = None \<Longrightarrow>
   followup_send env i r eph s = (Inr (), emit (Responded (interaction_id i) Followup (Some r) eph) s)"
  by (simp add: followup_send_def respond_def Let_def)

lemma send_error_followup_trace:
  "trace (snd (send_error env i True m s)) =
     trace s @ [Responded (interaction_id i) Followup (Some (Error_embed m)) True]"
  by (simp add: send_error_def followup_send_def respond_def Let_def split: option.split)

text \<open>Before the purchase is routed nothing is put on the queue and nothing is bought.\<close>

lemma before_routing:
  assumes "on_submit_rate_limit env i s = (Inr (), s1)"
    and "on_submit_checks env modal i s1 = (r, s2)"
  shows "extends (\<lambda>ev. \<not> is_add_transaction ev \<and> \<not> is_process_purchase ev) (\<lambda>k. False) s s2"
proof -
  have a: "extends (\<lambda>ev. \<not> is_add_transaction ev \<and> \<not> is_process_purchase ev) (\<lambda>k. False) s s1"
    by (rule io_extendsD [OF io_on_submit_rate_limit assms(1)]) simp_all
  have b: "extends (\<lambda>ev. \<not> is_add_transaction ev \<and> \<not> is_process_purchase ev) (\<lambda>k. False) s1 s2"
    by (rule io_extendsD [OF io_on_submit_checks assms(2)]) simp_all
  from a b show ?thesis by (rule extends_trans)
qed

lemma queued_rest:
  "\<exists>rest. trace (snd (attempt (on_submit_queued env i product_code quantity)
                        (on_submit_except env i True None) ret s2)) =
            trace s2 @ Called (Add_transaction (user i) product_code quantity) None # rest
        \<and> list_all (\<lambda>ev. \<not> is_process_purchase ev) rest"
proof -
  let ?s3 = "emit (Called (Add_transaction (user i) product_code quantity) None) s2"
  let ?P = "\<lambda>ev. \<not> is_process_purchase ev"
  have h: "io_extends ?P (\<lambda>k. False) (on_submit_except env i True None e)" for e
    by (rule io_on_submit_except) simp_all
  have "io_extends ?P (\<lambda>k. False)
          (attempt (followup_send env i Processing_embed True)
             (on_submit_except env i True None) ret)"
    by (auto simp: followup_send_def intro!: io_intros h)
  then have "extends ?P (\<lambda>k. False) ?s3
     (snd (attempt (on_submit_queued env i product_code quantity)
             (on_submit_except env i True None) ret s2))"
    using h by (simp add: on_submit_queued_step io_extends_def split: option.split)
  then show ?thesis by (auto simp: extends_def)
qed

lemma purchase_rest:
  "\<exists>rest. trace (snd (attempt (on_submit_purchase env i product_code quantity)
                 (on_submit_except env i True None)
                 (\<lambda>purchase_response.
                    attempt
                      (on_submit_finish env i product_code quantity growid purchase_response)
                      (on_submit_except env i True (Some purchase_response)) ret) s2)) =
            trace s2 @ Called (Process_purchase (user i) product_code quantity) (Some 30) # rest
        \<and> list_all (\<lambda>ev. \<not> is_add_transaction ev) rest"
proof -
  let ?s3 = "emit (Called (Process_purchase (user i) product_code quantity) (Some 30)) s2"
  let ?P = "\<lambda>ev. \<not> is_add_transaction ev"
  have h: "io_extends ?P (\<lambda>k. False) (on_submit_except env i True pr e)" for e pr
    by (rule io_on_submit_except) simp_all
  have f: "io_extends ?P (\<lambda>k. False)
             (attempt (on_submit_finish env i product_code quantity growid r)
                (on_submit_except env i True (Some r)) ret)" for r
    by (intro io_attempt io_on_submit_finish h io_ret) simp_all
  have "extends ?P (\<lambda>k. False) ?s3
     (snd (attempt (on_submit_purchase env i product_code quantity)
                 (on_submit_except env i True None)
                 (\<lambda>purchase_response.
                    attempt
                      (on_submit_finish env i product_code quantity growid purchase_response)
                      (on_submit_except env i True (Some purchase_response)) ret) s2))"
    using h f by (simp add: on_submit_purchase_step io_extends_def split: sum.split)
  then show ?thesis by (auto simp: extends_def)
qed

lemma purchase_success_last:
  assumes "process_purchase env = Inr r" and "success r" and "render_error env = None"
    and "followup_error env = None"
  shows "\<exists>evs. trace (snd (attempt (on_submit_purchase env i product_code quantity)
                 (on_submit_except env i True None)
                 (\<lambda>purchase_response.
                    attempt
                      (on_submit_finish env i product_code quantity growid purchase_response)
                      (on_submit_except env i True (Some purchase_response)) ret) s2)) =
            trace s2 @ evs @
              [Responded (interaction_id i) Followup (Some (Purchase_success_embed quantity)) True]"
proof -
  let ?s3 = "emit (Called (Process_purchase (user i) product_code quantity) (Some 30)) s2"
  let ?s4 = "invalidate env [balance_key growid, Stock_key product_code, History_key (user i)] ?s3"
  have "extends (\<lambda>ev. True) (\<lambda>k. False) ?s3 ?s4"
    by (rule extends_invalidate) simp_all
  then obtain evs where evs: "trace ?s4 = trace ?s3 @ evs"
    by (auto simp: extends_def)
  have "trace (snd (attempt (on_submit_purchase env i product_code quantity)
                 (on_submit_except env i True None)
                 (\<lambda>purchase_response.
                    attempt
                      (on_submit_finish env i product_code quantity growid purchase_response)
                      (on_submit_except env i True (Some purchase_response)) ret) s2)) =
        trace ?s4 @
          [Responded (interaction_id i) Followup (Some (Purchase_success_embed quantity)) True]"
    using assms
    by (simp only: on_submit_purchase_step)
       (simp add: on_submit_finish_def attempt_def then_do_def render_def ret_def
         followup_send_ok)
  with evs show ?thesis by simp
qed

text \<open>
  C6. A purchase that has passed the rate limit, the deferral, the validation and the
  GrowID lookup is routed by its quantity. Above 10 it is put on the transaction queue
  and \<open>process_purchase\<close> is never called; when the queue and the platform take it, the
  only answer is the processing embed. At 10 or below \<open>process_purchase\<close> is called
  inside a scope of 30 seconds and nothing is put on the queue; the answer is the result
  itself: the success embed last when the purchase succeeds, its error text when the
  purchase is refused, the timeout message when the 30 seconds run out.
\<close>

theorem purchase_routed_by_quantity:
  assumes "on_submit_rate_limit env i s = (Inr (), s1)"
    and "on_submit_checks env modal i s1 = (Inr (product_code, quantity, growid), s2)"
  shows "(quantity > 10 \<longrightarrow>
            Called (Add_transaction (user i) product_code quantity) None
              \<in> set (new_events s (snd (on_submit env modal i s)))
          \<and> \<not> list_ex is_process_purchase (new_events s (snd (on_submit env modal i s)))
          \<and> (add_transaction env = None \<and> followup_error env = None \<longrightarrow>
               new_events s2 (snd (on_submit env modal i s)) =
                 [Called (Add_transaction (user i) product_code quantity) None,
                  Responded (interaction_id i) Followup (Some Processing_embed) True]))
       \<and> (quantity \<le> 10 \<longrightarrow>
            Called (Process_purchase (user i) product_code quantity) (Some 30)
              \<in> set (new_events s (snd (on_submit env modal i s)))
          \<and> \<not> list_ex is_add_transaction (new_events s (snd (on_submit env modal i s)))
          \<and> (\<forall>r. process_purchase env = Inr r \<and> success r \<and> render_error env = None
                   \<and> followup_error env = None \<longrightarrow>
                 last (new_events s (snd (on_submit env modal i s))) =
                   Responded (interaction_id i) Followup
                     (Some (Purchase_success_embed quantity)) True)
          \<and> (\<forall>r. process_purchase env = Inr r \<and> \<not> success r \<longrightarrow>
                 new_events s2 (snd (on_submit env modal i s)) =
                   [Called (Process_purchase (user i) product_code quantity) (Some 30),
                    Responded (interaction_id i) Followup
                      (Some (Error_embed (Backend_text (error r)))) True])
          \<and> (process_purchase env = Inl TimeoutError \<longrightarrow>
                 new_events s2 (snd (on_submit env modal i s)) =
                   [Called (Process_purchase (user i) product_code quantity) (Some 30),
                    Responded (interaction_id i) Followup
                      (Some (Error_embed ERROR_TRANSACTION_TIMEOUT)) True]))"
proof -
  let ?final = "snd (on_submit env modal i s)"
  let ?add = "Called (Add_transaction (user i) product_code quantity) None"
  let ?buy = "Called (Process_purchase (user i) product_code quantity) (Some 30)"
  note routed = on_submit_routed [OF assms]
  from before_routing [OF assms] obtain pre where
    pre: "trace s2 = trace s @ pre"
      "list_all (\<lambda>ev. \<not> is_add_transaction ev \<and> \<not> is_process_purchase ev) pre"
    by (auto simp: extends_def)
  have large: "Called (Add_transaction (user i) product_code quantity) None
              \<in> set (new_events s ?final)
          \<and> \<not> list_ex is_process_purchase (new_events s ?final)
          \<and> (add_transaction env = None \<and> followup_error env = None \<longrightarrow>
               new_events s2 ?final =
                 [?add, Responded (interaction_id i) Followup (Some Processing_embed) True])"
    if q: "quantity > 10"
  proof -
    from queued_rest [of env i product_code quantity s2] obtain rest where
      rest: "trace ?final = trace s2 @ ?add # rest"
        "list_all (\<lambda>ev. \<not> is_process_purchase ev) rest"
      using q by (auto simp: routed)
    have all: "new_events s ?final = pre @ ?add # rest"
      using rest(1) pre(1) by (simp add: new_events_def)
    have acked: "new_events s2 ?final =
        [?add, Responded (interaction_id i) Followup (Some Processing_embed) True]"
      if "add_transaction env = None" "followup_error env = None"
      using that q
      by (simp only: routed on_submit_queued_step)
         (simp add: attempt_def followup_send_ok ret_def new_events_def)
    show ?thesis
      using all rest(2) pre(2) acked
      by (auto simp: list_ex_iff list_all_iff)
  qed
  have small: "?buy \<in> set (new_events s ?final)
          \<and> \<not> list_ex is_add_transaction (new_events s ?final)
          \<and> (\<forall>r. process_purchase env = Inr r \<and> success r \<and> render_error env = None
                   \<and> followup_error env = None \<longrightarrow>
                 last (new_events s ?final) =
                   Responded (interaction_id i) Followup
                     (Some (Purchase_success_embed quantity)) True)
          \<and> (\<forall>r. process_purchase env = Inr r \<and> \<not> success r \<longrightarrow>
                 new_events s2 ?final =
                   [?buy, Responded (interaction_id i) Followup
                      (Some (Error_embed (Backend_text (error r)))) True])
          \<and> (process_purchase env = Inl TimeoutError \<longrightarrow>
                 new_events s2 ?final =
                   [?buy, Responded (interaction_id i) Followup
                      (Some (Error_embed ERROR_TRANSACTION_TIMEOUT)) True])"
    if q: "quantity \<le> 10"
  proof -
    have nq: "\<not> quantity > 10" using q by simp
    from purchase_rest [of env i product_code quantity growid s2] obtain rest where
      rest: "trace ?final = trace s2 @ ?buy # rest"
        "list_all (\<lambda>ev. \<not> is_add_transaction ev) rest"
      using nq by (auto simp: routed)
    have all: "new_events s ?final = pre @ ?buy # rest"
      using rest(1) pre(1) by (simp add: new_events_def)
    have success: "last (new_events s ?final) =
        Responded (interaction_id i) Followup (Some (Purchase_success_embed quantity)) True"
      if "process_purchase env = Inr r" "success r" "render_error env = None"
        "followup_error env = None" for r
    proof -
      from purchase_success_last [OF that, of i product_code quantity growid s2]
      obtain evs where "trace ?final = trace s2 @ evs @
          [Responded (interaction_id i) Followup (Some (Purchase_success_embed quantity)) True]"
        using nq by (auto simp: routed)
      then show ?thesis using pre(1) by (simp add: new_events_def)
    qed
    have refused: "new_events s2 ?final =
        [?buy, Responded (interaction_id i) Followup
                 (Some (Error_embed (Backend_text (error r)))) True]"
      if "process_purchase env = Inr r" "\<not> success r" for r
      using that nq
      by (simp only: routed on_submit_purchase_step)
         (simp add: attempt_def on_submit_finish_def raise_def on_submit_except_def
           send_error_followup_trace new_events_def)
    have late: "new_events s2 ?final =
        [?buy, Responded (interaction_id i) Followup
                 (Some (Error_embed ERROR_TRANSACTION_TIMEOUT)) True]"
      if "process_purchase env = Inl TimeoutError"
      using that nq
      by (simp only: routed on_submit_purchase_step)
         (simp add: on_submit_except_def send_error_followup_trace new_events_def)
    show ?thesis
      using all rest(2) pre(2) success refused late
      by (auto simp: list_ex_iff list_all_iff)
  qed
  from large small show ?thesis by blast
qed

theorem purchase_routed_by_quantity_witness:
  "on_submit_rate_limit calm_env visitor fresh_world =
     (Inr (), snd (on_submit_rate_limit calm_env visitor fresh_world))
   \<and> on_submit_checks calm_env large_order visitor
        (snd (on_submit_rate_limit calm_env visitor fresh_world)) =
       (Inr (''FW'', 11, Some ''PLAYER_ONE''),
        snd (on_submit_checks calm_env large_order visitor
               (snd (on_submit_rate_limit calm_env visitor fresh_world))))
   \<and> on_submit_checks calm_env small_order visitor
        (snd (on_submit_rate_limit calm_env visitor fresh_world)) =
       (Inr (''FW'', 10, Some ''PLAYER_ONE''),
        snd (on_submit_checks calm_env small_order visitor
               (snd (on_submit_rate_limit calm_env visitor fresh_world))))
   \<and> Called (Add_transaction 42 ''FW'' 11) None
       \<in> set (new_events fresh_world (snd (on_submit calm_env large_order visitor fresh_world)))
   \<and> \<not> list_ex is_process_purchase
         (new_events fresh_world (snd (on_submit calm_env large_order visitor fresh_world)))
   \<and> Called (Process_purchase 42 ''FW'' 10) (Some 30)
       \<in> set (new_events fresh_world (snd (on_submit calm_env small_order visitor fresh_world)))
   \<and> \<not> list_ex is_add_transaction
         (new_events fresh_world (snd (on_submit calm_env small_order visitor fresh_world)))
   \<and> last (new_events fresh_world (snd (on_submit calm_env small_order visitor fresh_world)))
       = Responded 1 Followup (Some (Purchase_success_embed 10)) True"
proof -
  let ?w1 = "snd (on_submit_rate_limit calm_env visitor fresh_world)"
  have "fst (on_submit_rate_limit calm_env visitor fresh_world) = Inr ()"
    by (simp add: on_submit_rate_limit_def then_do_def cache_get_def cache_lookup_def
        response_defer_def respond_def emit_def Let_def calm_env_def fresh_world_def
        visitor_def)
  then have h1: "on_submit_rate_limit calm_env visitor fresh_world = (Inr (), ?w1)"
    by (simp add: prod_eq_iff)
  have growid: "get_growid calm_env (user visitor) = Inr (ok (Some ''PLAYER_ONE''))"
    "success (ok (Some ''PLAYER_ONE''))" "data (ok (Some ''PLAYER_ONE'')) = Some ''PLAYER_ONE''"
    by (simp_all add: calm_env_def ok_def)
  have texts: "validate_quantity (quantity_value large_order) = Inr 11"
    "validate_quantity (quantity_value small_order) = Inr 10"
    "normalize_code (product_code_value large_order) = ''FW''"
    "normalize_code (product_code_value small_order) = ''FW''"
    by (simp_all add: validate_quantity_def py_int_def strip_def is_space_def py_digits_def
        digit_val_def normalize_code_def upper_char_def large_order_def small_order_def)
  have "fst (on_submit_checks calm_env large_order visitor ?w1) =
          Inr (''FW'', 11, Some ''PLAYER_ONE'')"
    by (simp add: on_submit_checks_split then_do_def on_timeout_def called_def ret_def
        growid texts)
  then have h2: "on_submit_checks calm_env large_order visitor ?w1 =
      (Inr (''FW'', 11, Some ''PLAYER_ONE''),
       snd (on_submit_checks calm_env large_order visitor ?w1))"
    by (simp add: prod_eq_iff)
  have "fst (on_submit_checks calm_env small_order visitor ?w1) =
          Inr (''FW'', 10, Some ''PLAYER_ONE'')"
    by (simp add: on_submit_checks_split then_do_def on_timeout_def called_def ret_def
        growid texts)
  then have h3: "on_submit_checks calm_env small_order visitor ?w1 =
      (Inr (''FW'', 10, Some ''PLAYER_ONE''),
       snd (on_submit_checks calm_env small_order visitor ?w1))"
    by (simp add: prod_eq_iff)
  have answers: "process_purchase calm_env = Inr (ok (Some 1))" "success (ok (Some (1::nat)))"
    "render_error calm_env = None" "followup_error calm_env = None"
    by (simp_all add: calm_env_def ok_def)
  have who: "user visitor = 42" "interaction_id visitor = 1"
    by (simp_all add: visitor_def)
  from purchase_routed_by_quantity [OF h1 h2]
  have large: "Called (Add_transaction 42 ''FW'' 11) None
       \<in> set (new_events fresh_world (snd (on_submit calm_env large_order visitor fresh_world)))
   \<and> \<not> list_ex is_process_purchase
         (new_events fresh_world (snd (on_submit calm_env large_order visitor fresh_world)))"
    by (simp add: who)
  from purchase_routed_by_quantity [OF h1 h3] answers
  have small: "Called (Process_purchase 42 ''FW'' 10) (Some 30)
       \<in> set (new_events fresh_world (snd (on_submit calm_env small_order visitor fresh_world)))
   \<and> \<not> list_ex is_add_transaction
         (new_events fresh_world (snd (on_submit calm_env small_order visitor fresh_world)))
   \<and> last (new_events fresh_world (snd (on_submit calm_env small_order visitor fresh_world)))
       = Responded 1 Followup (Some (Purchase_success_embed 10)) True"
    by (simp add: who)
  from h1 h2 h3 large small show ?thesis by blast
qed

subsection \<open>The cooldown of a submission\<close>

lemma respond_trace:
  "trace (snd (respond i ch r eph err s)) = trace s @ [Responded (interaction_id i) ch r eph]"
  by (simp add: respond_def Let_def split: option.split)

lemma rate_limit_passed:
  assumes "on_submit_rate_limit env i s = (Inr (), s1)"
  shows "new_events s s1 =
           [Called (Cache_get (Purchase_limit (user i))) None,
            Responded (interaction_id i) Defer None True]
       \<and> cache s1 = cache s \<and> clock s1 = clock s"
  using assms
  by (auto simp: on_submit_rate_limit_def then_do_def cache_get_def response_defer_def
      respond_def raise_def new_events_def emit_def Let_def
      split: option.splits if_splits)

lemma io_on_submit_queued:
  assumes "\<And>ch r eph. P (Responded (interaction_id i) ch r eph)"
    and "P (Called (Add_transaction (user i) product_code quantity) None)"
  shows "io_extends P K (on_submit_queued env i product_code quantity)"
  using assms by (auto simp: on_submit_queued_def followup_send_def intro!: io_intros)

lemma io_on_submit_purchase:
  assumes "P (Called (Process_purchase (user i) product_code quantity) (Some 30))"
  shows "io_extends P K (on_submit_purchase env i product_code quantity)"
  using assms by (auto simp: on_submit_purchase_def intro!: io_intros)

text \<open>Once the rate-limit key is written, nothing in \<open>on_submit\<close> touches it.\<close>

lemma after_the_write:
  assumes "on_submit_rate_limit env i s = (Inr (), s1)"
  shows "extends (\<lambda>ev. True) (\<lambda>k. k = Purchase_limit (user i))
           (set_with_retry env (Purchase_limit (user i)) 300 0 s1)
           (snd (on_submit env modal i s))"
proof -
  let ?K = "\<lambda>k. k = Purchase_limit (user i)"
  let ?P = "\<lambda>ev :: event. True"
  let ?w = "set_with_retry env (Purchase_limit (user i)) 300 0 s1"
  let ?rest = "then_do (\<lambda>s. (validate_quantity (quantity_value modal), s))
        (\<lambda>quantity.
           then_do
             (on_timeout ERROR_TIMEOUT
                (then_do (called (Get_growid (user i)) (Some 10) (get_growid env (user i)))
                   (\<lambda>growid_response.
                      if \<not> success growid_response
                      then raise (ValueError (Backend_text (error growid_response)))
                      else ret (data growid_response))))
             (\<lambda>growid. ret (normalize_code (product_code_value modal), quantity, growid)))"
  let ?k = "\<lambda>(product_code, quantity, growid).
             if quantity > 10 then
               attempt (on_submit_queued env i product_code quantity)
                 (on_submit_except env i True None) ret
             else
               attempt (on_submit_purchase env i product_code quantity)
                 (on_submit_except env i True None)
                 (\<lambda>purchase_response.
                    attempt
                      (on_submit_finish env i product_code quantity growid purchase_response)
                      (on_submit_except env i True (Some purchase_response)) ret)"
  have h: "io_extends ?P ?K (on_submit_except env i True pr e)" for pr e
    by (rule io_on_submit_except) simp_all
  have k: "io_extends ?P ?K (?k v)" for v
    by (cases v)
       (auto simp: balance_key_def
          intro!: io_attempt io_on_submit_queued io_on_submit_purchase io_on_submit_finish
            h io_ret)
  have rest: "io_extends ?P ?K ?rest"
    by (rule io_after_write) simp
  have "io_extends ?P ?K (attempt ?rest (on_submit_except env i True None) ?k)"
    using rest h k by (rule io_attempt)
  then have "extends ?P ?K ?w
      (snd (attempt ?rest (on_submit_except env i True None) ?k ?w))"
    by (simp add: io_extends_def)
  moreover have "on_submit env modal i s =
      attempt ?rest (on_submit_except env i True None) ?k ?w"
    using assms by (simp add: on_submit_def attempt_def on_submit_checks_split)
  ultimately show ?thesis by simp
qed

lemma the_write:
  assumes "\<exists>n<3. cache_set_error env k n = None"
  shows "\<exists>t rest. clock s \<le> t \<and> t \<le> clock s + 2
       \<and> cache (set_with_retry env k 300 0 s) k = Some (True, t + 300)
       \<and> trace (set_with_retry env k 300 0 s) =
           trace s @ Called (Cache_set k True 300) None # rest"
proof -
  from assms obtain n where n: "n < 3" "cache_set_error env k n = None" by blast
  then have "n = 0 \<or> n = 1 \<or> n = 2" by arith
  then show ?thesis
  proof (elim disjE)
    assume "n = 0"
    then show ?thesis using n(2)
      by (simp add: set_with_retry_unrolled Let_def)
  next
    assume "n = 1"
    then have one: "cache_set_error env k 1 = None" using n(2) by simp
    show ?thesis
    proof (cases "cache_set_error env k 0")
      case None
      then show ?thesis by (simp add: set_with_retry_unrolled Let_def)
    next
      case (Some e)
      then show ?thesis using one
        by (auto simp: set_with_retry_unrolled Let_def intro!: exI [of _ "clock s + 1"])
    qed
  next
    assume "n = 2"
    then have two: "cache_set_error env k 2 = None" using n(2) by simp
    show ?thesis
    proof (cases "cache_set_error env k 0")
      case None
      then show ?thesis by (simp add: set_with_retry_unrolled Let_def)
    next
      case zero: (Some e)
      show ?thesis
      proof (cases "cache_set_error env k 1")
        case None
        then show ?thesis using zero
          by (auto simp: set_with_retry_unrolled Let_def intro!: exI [of _ "clock s + 1"])
      next
        case (Some e')
        then show ?thesis using zero two
          by (auto simp: set_with_retry_unrolled Let_def intro!: exI [of _ "clock s + 2"])
      qed
    qed
  qed
qed

lemma refused_while_limited:
  assumes "cache w (Purchase_limit (user i)) = Some (True, expires)"
    and "clock w < expires"
    and "cache_get_error env (Purchase_limit (user i)) = None"
  shows "new_events w (snd (on_submit env modal i w)) =
           [Called (Cache_get (Purchase_limit (user i))) None,
            Responded (interaction_id i) Send_message (Some (Error_embed ERROR_RATE_LIMIT)) True]"
  using assms
  by (simp add: on_submit_def attempt_def on_submit_rate_limit_def then_do_def cache_get_ok
      cache_lookup_def raise_def on_submit_except_def send_error_def send_message_def
      respond_trace new_events_def)

text \<open>
  C10. In a submission that has passed the rate-limit read and the deferral, the first
  thing \<open>on_submit\<close> does is write the rate-limit key of the user with an expiry of
  300 seconds: before that it has only read the cache and deferred, and no input is
  looked at and no service is called before the write. When the cache takes one of the
  three attempts, the key is still set when \<open>on_submit\<close> is over, whatever the inputs
  were and whatever the purchase did, with an expiry 300 seconds after the write; and a
  later submission of the same user before that instant is answered with the rate-limit
  message and does nothing else.
\<close>

theorem rate_limit_written_before_validation:
  assumes "on_submit_rate_limit env i s = (Inr (), s1)"
    and "\<exists>n<3. cache_set_error env (Purchase_limit (user i)) n = None"
  shows "\<exists>t rest.
       new_events s s1 =
         [Called (Cache_get (Purchase_limit (user i))) None,
          Responded (interaction_id i) Defer None True]
     \<and> new_events s1 (snd (on_submit env modal i s)) =
         Called (Cache_set (Purchase_limit (user i)) True 300) None # rest
     \<and> clock s \<le> t \<and> t \<le> clock s + 2
     \<and> cache (snd (on_submit env modal i s)) (Purchase_limit (user i)) = Some (True, t + 300)
     \<and> (\<forall>c env' modal' i'.
           c < t + 300 \<and> user i' = user i
           \<and> cache_get_error env' (Purchase_limit (user i)) = None \<longrightarrow>
           new_events ((snd (on_submit env modal i s))\<lparr>clock := c\<rparr>)
             (snd (on_submit env' modal' i' ((snd (on_submit env modal i s))\<lparr>clock := c\<rparr>))) =
             [Called (Cache_get (Purchase_limit (user i))) None,
              Responded (interaction_id i') Send_message
                (Some (Error_embed ERROR_RATE_LIMIT)) True])"
proof -
  let ?key = "Purchase_limit (user i)"
  let ?w = "set_with_retry env ?key 300 0 s1"
  let ?final = "snd (on_submit env modal i s)"
  note passed = rate_limit_passed [OF assms(1)]
  from the_write [OF assms(2), of s1] obtain t rest where
    t: "clock s1 \<le> t" "t \<le> clock s1 + 2" "cache ?w ?key = Some (True, t + 300)"
      "trace ?w = trace s1 @ Called (Cache_set ?key True 300) None # rest"
    by blast
  from after_the_write [OF assms(1), of modal] obtain evs where
    fin: "cache ?final ?key = cache ?w ?key" "trace ?final = trace ?w @ evs"
    by (auto simp: extends_def)
  have first: "new_events s1 ?final = Called (Cache_set ?key True 300) None # (rest @ evs)"
    using t(4) fin(2) by (simp add: new_events_def)
  have kept: "cache ?final ?key = Some (True, t + 300)"
    using fin(1) t(3) by simp
  have again: "new_events (?final\<lparr>clock := c\<rparr>)
             (snd (on_submit env' modal' i' (?final\<lparr>clock := c\<rparr>))) =
             [Called (Cache_get ?key) None,
              Responded (interaction_id i') Send_message
                (Some (Error_embed ERROR_RATE_LIMIT)) True]"
    if "c < t + 300" "user i' = user i" "cache_get_error env' ?key = None"
    for c env' modal' i'
    using refused_while_limited [of "?final\<lparr>clock := c\<rparr>" i' "t + 300" env' modal'] that kept
    by simp
  show ?thesis
    apply (rule exI [of _ t], rule exI [of _ "rest @ evs"])
    using passed first kept t(1) t(2) again by simp
qed

theorem rate_limit_written_before_validation_witness:
  "on_submit_rate_limit calm_env visitor fresh_world =
     (Inr (), snd (on_submit_rate_limit calm_env visitor fresh_world))
   \<and> cache_set_error calm_env (Purchase_limit (user visitor)) 0 = None
   \<and> validate_quantity (quantity_value bad_order) = Inl (ValueError ERROR_INVALID_AMOUNT)
   \<and> (\<exists>t \<le> 2.
         cache (snd (on_submit calm_env bad_order visitor fresh_world)) (Purchase_limit 42)
           = Some (True, t + 300)
       \<and> new_events ((snd (on_submit calm_env bad_order visitor fresh_world))\<lparr>clock := 299\<rparr>)
           (snd (on_submit calm_env small_order visitor_again
             ((snd (on_submit calm_env bad_order visitor fresh_world))\<lparr>clock := 299\<rparr>))) =
           [Called (Cache_get (Purchase_limit 42)) None,
            Responded 2 Send_message (Some (Error_embed ERROR_RATE_LIMIT)) True])"
proof -
  have "fst (on_submit_rate_limit calm_env visitor fresh_world) = Inr ()"
    by (simp add: on_submit_rate_limit_def then_do_def cache_get_def cache_lookup_def
        response_defer_def respond_def emit_def Let_def calm_env_def fresh_world_def
        visitor_def)
  then have h1: "on_submit_rate_limit calm_env visitor fresh_world =
      (Inr (), snd (on_submit_rate_limit calm_env visitor fresh_world))"
    by (simp add: prod_eq_iff)
  have w: "cache_set_error calm_env (Purchase_limit (user visitor)) 0 = None"
    by (simp add: calm_env_def)
  then have h2: "\<exists>n<3. cache_set_error calm_env (Purchase_limit (user visitor)) n = None"
    by (intro exI [of _ 0]) simp
  have bad: "validate_quantity (quantity_value bad_order) = Inl (ValueError ERROR_INVALID_AMOUNT)"
    by (simp add: validate_quantity_def py_int_def strip_def is_space_def py_digits_def
        digit_val_def bad_order_def)
  have who: "user visitor = 42" "user visitor_again = 42" "interaction_id visitor_again = 2"
    "clock fresh_world = 0" "cache_get_error calm_env (Purchase_limit 42) = None"
    by (simp_all add: visitor_def visitor_again_def fresh_world_def calm_env_def)
  let ?final = "snd (on_submit calm_env bad_order visitor fresh_world)"
  from rate_limit_written_before_validation [OF h1 h2, of bad_order]
  obtain t where t: "t \<le> 2" "cache ?final (Purchase_limit 42) = Some (True, t + 300)"
    and later: "\<forall>c env' modal' i'.
           c < t + 300 \<and> user i' = 42 \<and> cache_get_error env' (Purchase_limit 42) = None \<longrightarrow>
           new_events (?final\<lparr>clock := c\<rparr>) (snd (on_submit env' modal' i' (?final\<lparr>clock := c\<rparr>))) =
             [Called (Cache_get (Purchase_limit 42)) None,
              Responded (interaction_id i') Send_message
                (Some (Error_embed ERROR_RATE_LIMIT)) True]"
    by (auto simp: who)
  have "new_events (?final\<lparr>clock := 299\<rparr>)
           (snd (on_submit calm_env small_order visitor_again (?final\<lparr>clock := 299\<rparr>))) =
           [Called (Cache_get (Purchase_limit 42)) None,
            Responded 2 Send_message (Some (Error_embed ERROR_RATE_LIMIT)) True]"
    using later [rule_format, of 299 visitor_again calm_env small_order] who by simp
  with h1 w bad t show ?thesis by blast
qed

end
